theory Spec2Isabelle
  imports Complex_Main
begin

section \<open>Python values, exceptions and small library functions\<close>

text \<open>
  The three source files are Python classes built on TensorFlow/Keras:
  \<^verbatim>\<open>simplegan/gan/dcgan.py\<close> (class DCGAN), \<^verbatim>\<open>simplegan/autoencoder/vae.py\<close> (class VAE)
  and \<^verbatim>\<open>easygan/autoencoder/convolutional_autoencoder.py\<close> (class ConvolutionalAutoencoder).
  An exception is a value of type \<open>error\<close>; a method that may raise returns
  \<open>error + 'a\<close>, with \<open>Inl\<close> for the exception. Python floats are modelled as
  real numbers.
\<close>

datatype error =
    AssertionError string
  | TypeError string
  | IndexError string
  | AttributeError string
  | NotFoundError string
  | ValueError string

definition ebind :: "error + 'a \<Rightarrow> ('a \<Rightarrow> error + 'b) \<Rightarrow> error + 'b" where
  "ebind m f = (case m of Inl e \<Rightarrow> Inl e | Inr x \<Rightarrow> f x)"

text \<open>Python's \<^verbatim>\<open>xs[i]\<close> on a list, a tuple or a string: a negative index counts
  from the end, an index out of range raises IndexError.\<close>

definition getitem :: "'a list \<Rightarrow> int \<Rightarrow> error + 'a" where
  "getitem xs i =
     (if 0 \<le> i \<and> i < int (length xs) then Inr (xs ! nat i)
      else if i < 0 \<and> - int (length xs) \<le> i then Inr (xs ! nat (int (length xs) + i))
      else Inl (IndexError ''index out of range''))"

text \<open>\<^verbatim>\<open>self.image_size[i]\<close>: the attribute is None until \<^verbatim>\<open>load_data\<close> sets it.\<close>

definition subscript :: "'a list option \<Rightarrow> int \<Rightarrow> error + 'a" where
  "subscript v i =
     (case v of
        None \<Rightarrow> Inl (TypeError ''NoneType object is not subscriptable'')
      | Some xs \<Rightarrow> getitem xs i)"

fun mapM :: "('a \<Rightarrow> error + 'b) \<Rightarrow> 'a list \<Rightarrow> error + 'b list" where
  "mapM f [] = Inr []"
| "mapM f (x # xs) = ebind (f x) (\<lambda>y. ebind (mapM f xs) (\<lambda>ys. Inr (y # ys)))"

text \<open>\<^verbatim>\<open>str(i)\<close> of a non-negative integer: its decimal digits.\<close>

definition digit :: "nat \<Rightarrow> char" where
  "digit d = ''0123456789'' ! d"

function str_nat :: "nat \<Rightarrow> string" where
  "str_nat n = (if n < 10 then [digit n] else str_nat (n div 10) @ [digit (n mod 10)])"
  by pat_completeness auto
termination
  by (relation "measure (\<lambda>n. n)") auto

text \<open>\<^verbatim>\<open>os.path.join(a, b)\<close> on POSIX paths.\<close>

definition path_join :: "string \<Rightarrow> string \<Rightarrow> string" where
  "path_join a b =
     (if b \<noteq> [] \<and> hd b = CHR ''/'' then b
      else if a = [] \<or> last a = CHR ''/'' then a @ b
      else a @ ''/'' @ b)"

definition sample_name :: "nat \<Rightarrow> string" where
  "sample_name i = ''sample_'' @ str_nat i @ ''.jpg''"

section \<open>Tensors, Keras layers and their output shapes\<close>

text \<open>
  A tensor is the list of its entries in row-major order; a batch is the list of its
  samples. The layer constructors keep the arguments that decide a layer's output shape
  (units, filters, strides, target shape). The other keyword arguments the source passes
  (activation, kernel initializer and regularizer, kernel size under \<^verbatim>\<open>padding='same'\<close>,
  \<^verbatim>\<open>use_bias\<close>) change no shape and are left out.
\<close>

type_synonym tensor = "real list"

datatype layer =
    Dense int
  | Reshape "int list"
  | Conv2D int "int \<times> int"
  | Conv2DTranspose int "int \<times> int"
  | BatchNormalization
  | LeakyReLU
  | Dropout real
  | MaxPool2D
  | Flatten

text \<open>
  The output shape of one sample under a layer, after the shape rules Keras documents for
  these layers with \<^verbatim>\<open>padding='same'\<close>: a transposed convolution multiplies height and
  width by its strides, a convolution divides them rounding up, the default pooling
  halves them rounding down. \<open>None\<close> is a shape the layer rejects.
\<close>

fun output_shape :: "layer \<Rightarrow> int list \<Rightarrow> int list option" where
  "output_shape (Dense u) sh = (if sh = [] then None else Some (butlast sh @ [u]))"
| "output_shape (Reshape t) sh = (if prod_list sh = prod_list t then Some t else None)"
| "output_shape (Conv2DTranspose f (sy, sx)) sh =
     (case sh of [h, w, c] \<Rightarrow> Some [h * sy, w * sx, f] | _ \<Rightarrow> None)"
| "output_shape (Conv2D f (sy, sx)) sh =
     (case sh of [h, w, c] \<Rightarrow> Some [(h + sy - 1) div sy, (w + sx - 1) div sx, f] | _ \<Rightarrow> None)"
| "output_shape MaxPool2D sh =
     (case sh of [h, w, c] \<Rightarrow> Some [h div 2, w div 2, c] | _ \<Rightarrow> None)"
| "output_shape Flatten sh = Some [prod_list sh]"
| "output_shape BatchNormalization sh = Some sh"
| "output_shape LeakyReLU sh = Some sh"
| "output_shape (Dropout r) sh = Some sh"

fun model_output_shape :: "layer list \<Rightarrow> int list \<Rightarrow> int list option" where
  "model_output_shape [] sh = Some sh"
| "model_output_shape (l # ls) sh =
     (case output_shape l sh of None \<Rightarrow> None | Some sh' \<Rightarrow> model_output_shape ls sh')"

section \<open>The running mean \<^verbatim>\<open>tf.keras.metrics.Mean\<close>\<close>

text \<open>
  The metric keeps the sum of the values it was called with and their number;
  \<^verbatim>\<open>result()\<close> divides the two and is 0 when nothing was recorded;
  \<^verbatim>\<open>reset_states()\<close> sets both to 0.
\<close>

record mean_metric =
  m_total :: real
  m_count :: nat

definition Mean :: mean_metric where
  "Mean = \<lparr>m_total = 0, m_count = 0\<rparr>"

definition reset_states :: "mean_metric \<Rightarrow> mean_metric" where
  "reset_states m = m\<lparr>m_total := 0, m_count := 0\<rparr>"

definition update_state :: "mean_metric \<Rightarrow> real \<Rightarrow> mean_metric" where
  "update_state m x = m\<lparr>m_total := m_total m + x, m_count := m_count m + 1\<rparr>"

definition result :: "mean_metric \<Rightarrow> real" where
  "result m = (if m_count m = 0 then 0 else m_total m / real (m_count m))"

section \<open>The KL-divergence term of the VAE\<close>

text \<open>
  \<^verbatim>\<open>kl_loss = -0.5 * tf.math.reduce_mean(z_var - tf.math.square(z_mean) - tf.math.exp(z_var) + 1)\<close>
  (vae.py, lines 239 to 241). \<open>z_mean\<close> and \<open>z_var\<close> are the two outputs of the encoder
  for a batch, both of shape batch times latent dimension. The elementwise operations
  pair the entries; the mean of a tensor with no entry is not a number, which is \<open>None\<close>.
\<close>

definition t_sub :: "tensor \<Rightarrow> tensor \<Rightarrow> tensor" where
  "t_sub a b = map2 (\<lambda>x y. x - y) a b"

definition t_square :: "tensor \<Rightarrow> tensor" where
  "t_square a = map (\<lambda>x. x * x) a"

definition t_exp :: "tensor \<Rightarrow> tensor" where
  "t_exp a = map exp a"

definition t_add_scalar :: "tensor \<Rightarrow> real \<Rightarrow> tensor" where
  "t_add_scalar a c = map (\<lambda>x. x + c) a"

definition reduce_mean :: "tensor \<Rightarrow> real option" where
  "reduce_mean a = (if a = [] then None else Some (sum_list a / real (length a)))"

definition kl_loss :: "tensor \<Rightarrow> tensor \<Rightarrow> real option" where
  "kl_loss z_mean z_var =
     map_option (\<lambda>m. - 0.5 * m)
       (reduce_mean (t_add_scalar (t_sub (t_sub z_var (t_square z_mean)) (t_exp z_var)) 1))"

text \<open>
  The formula as the specification writes it,
  \<^verbatim>\<open>KL = -0.5 * mean(z_var - z_mean^2 - exp(z_var) + 1)\<close> over the \<open>n\<close> entries of the
  latent batch, to compare with \<open>kl_loss\<close>.
\<close>

definition kl_divergence_spec :: "tensor \<Rightarrow> tensor \<Rightarrow> real" where
  "kl_divergence_spec z_mean z_var =
     - 0.5 * ((\<Sum>i<length z_var. z_var ! i - (z_mean ! i)\<^sup>2 - exp (z_var ! i) + 1)
              / real (length z_var))"

section \<open>ConvolutionalAutoencoder (easygan/autoencoder/convolutional_autoencoder.py)\<close>

text \<open>
  \<^verbatim>\<open>params\<close> is a dictionary from hyperparameter names to values. The values the
  methods compute with are integers and lists of integers; every other value (an
  activation name, a kernel size) is \<open>PyOther\<close>.
\<close>

datatype pyval = PyInt int | PyList "int list" | PyOther

type_synonym params = "string \<rightharpoonup> pyval"

text \<open>\<^verbatim>\<open>params[k] if k in params else d\<close>\<close>

definition lookup_default :: "params \<Rightarrow> string \<Rightarrow> pyval \<Rightarrow> pyval" where
  "lookup_default params k d = (case params k of Some v \<Rightarrow> v | None \<Rightarrow> d)"

definition len :: "pyval \<Rightarrow> error + int" where
  "len v = (case v of PyList xs \<Rightarrow> Inr (int (length xs))
            | _ \<Rightarrow> Inl (TypeError ''object has no len()''))"

definition index :: "pyval \<Rightarrow> int \<Rightarrow> error + int" where
  "index v i = (case v of PyList xs \<Rightarrow> getitem xs i
            | _ \<Rightarrow> Inl (TypeError ''object is not subscriptable''))"

definition as_int :: "pyval \<Rightarrow> error + int" where
  "as_int v = (case v of PyInt n \<Rightarrow> Inr n
            | _ \<Rightarrow> Inl (TypeError ''an integer is required''))"

record cae =
  enc :: "layer list option"
  dec :: "layer list option"
  cae_image_size :: "int list option"

text \<open>\<^verbatim>\<open>__init__\<close> (lines 17 to 24).\<close>

definition ConvolutionalAutoencoder :: cae where
  "ConvolutionalAutoencoder = \<lparr>enc = None, dec = None, cae_image_size = None\<rparr>"

text \<open>
  The loop \<^verbatim>\<open>for _ in range(n): model.add(block(channels[k])); k += 1\<close> of the decoder
  and of the DCGAN generator: the layers added and the value of \<open>k\<close> after the loop.
\<close>

fun conv_loop :: "nat \<Rightarrow> int list \<Rightarrow> int \<Rightarrow> (int \<Rightarrow> layer list) \<Rightarrow> error + layer list \<times> int" where
  "conv_loop 0 channels k block = Inr ([], k)"
| "conv_loop (Suc n) channels k block =
     ebind (getitem channels k) (\<lambda>c.
     ebind (conv_loop n channels (k + 1) block) (\<lambda>(ls, k').
       Inr (block c @ ls, k')))"

text \<open>\<^verbatim>\<open>encoder\<close> (lines 56 to 83): the layers of the Sequential model it returns.\<close>

definition encoder :: "cae \<Rightarrow> params \<Rightarrow> error + layer list" where
  "encoder self params =
     (let enc_channels = lookup_default params ''enc_channels'' (PyList [32, 64]);
          encoder_layers = lookup_default params ''encoder_layers'' (PyInt 2);
          interm_dim = lookup_default params ''interm_dim'' (PyInt 128)
      in ebind (len enc_channels) (\<lambda>n.
         if PyInt n \<noteq> encoder_layers
         then Inl (AssertionError
           ''Dimension mismatch: length of enocoder encoder channels should match number of encoder layers'')
         else
           ebind (index enc_channels 0) (\<lambda>c0.
           ebind (mapM (\<lambda>i. ebind (index enc_channels (int i))
                               (\<lambda>c. Inr [Conv2D c (1, 1), MaxPool2D])) [0..<nat n]) (\<lambda>blocks.
           ebind (as_int interm_dim) (\<lambda>d.
             Inr ([Conv2D (c0 div 2) (1, 1), MaxPool2D] @ concat blocks @ [Flatten, Dense d]))))))"

text \<open>\<^verbatim>\<open>decoder\<close> (lines 86 to 125).\<close>

definition decoder :: "cae \<Rightarrow> params \<Rightarrow> error + layer list" where
  "decoder self params =
     (let dec_channels = lookup_default params ''dec_channels'' (PyList [64, 32]);
          decoder_layers = lookup_default params ''decoder_layers'' (PyInt 2);
          interm_dim = lookup_default params ''interm_dim'' (PyInt 128)
      in ebind (len dec_channels) (\<lambda>n.
         if PyInt n \<noteq> decoder_layers
         then Inl (AssertionError
           ''Dimension mismatch: length of decoder channels should match number of decoder layers'')
         else
           ebind (subscript (cae_image_size self) 0) (\<lambda>h.
           ebind (subscript (cae_image_size self) 1) (\<lambda>w.
           ebind (index dec_channels 0) (\<lambda>c0.
           ebind (case dec_channels of PyList cs \<Rightarrow> conv_loop (nat (n div 2)) cs 0
                      (\<lambda>c. [Conv2DTranspose c (1, 1)])
                  | _ \<Rightarrow> Inl (TypeError ''object is not subscriptable'')) (\<lambda>(first, k).
           ebind (index dec_channels k) (\<lambda>ck.
           ebind (case dec_channels of PyList cs \<Rightarrow> conv_loop (nat (n div 2)) cs k
                      (\<lambda>c. [Conv2DTranspose c (1, 1)])
                  | _ \<Rightarrow> Inl (TypeError ''object is not subscriptable'')) (\<lambda>(second, k').
           ebind (subscript (cae_image_size self) 2) (\<lambda>ch.
             Inr ([Dense ((h div 4) * (w div 4) * (c0 * 2)),
                   Reshape [h div 4, w div 4, c0 * 2]]
                  @ first @ [Conv2DTranspose ck (2, 2)] @ second
                  @ [Conv2DTranspose ch (2, 2)]))))))))))"


definition build_model :: "cae \<Rightarrow> params \<Rightarrow> error + cae" where
  "build_model self params =
     ebind (encoder self params) (\<lambda>e.
     ebind (decoder (self\<lparr>enc := Some e\<rparr>) params) (\<lambda>d.
       Inr (self\<lparr>enc := Some e, dec := Some d\<rparr>)))"

section \<open>TensorFlow objects: variables, models, optimizers, files\<close>

text \<open>
  What the classes import and do not define is a parameter of the model, collected in
  the record \<open>library\<close>:
  \<^item> \<open>normal\<close>: the sequence of numbers \<^verbatim>\<open>tf.random.normal\<close> hands out, in call order;
  \<^item> \<open>initializer\<close>: the initial values of the trainable variables of a freshly built
    stack of layers;
  \<^item> \<open>call\<close>: the forward pass of a stack of layers with given values of its variables
    on one sample (the source calls its models without \<^verbatim>\<open>training=True\<close>);
  \<^item> \<open>gradient\<close>: \<^verbatim>\<open>tape.gradient(loss, variables)\<close>, given the loss as a function of
    the values of the watched variables and their current values;
  \<^item> \<open>optimizers\<close>: \<^verbatim>\<open>getattr(tf.keras.optimizers, name)\<close>, \<open>None\<close> when there is no such
    attribute, and \<open>update_step\<close>: the new value an optimizer gives one variable from
    its gradient;
  \<^item> \<open>gan_discriminator_loss\<close>, \<open>gan_generator_loss\<close>, \<open>mse_loss\<close>: the loss functions of
    the package \<^verbatim>\<open>losses\<close>, which is not among the source files;
  \<^item> \<open>encode\<close>, \<open>decode\<close>: the forward passes of the VAE's encoder (to \<open>z_mean\<close> and
    \<open>z_var\<close>) and decoder on one sample.
  Progress bars (tqdm) and TensorBoard summaries are not modelled.
\<close>

type_synonym var = nat

record 'o library =
  normal :: "nat \<Rightarrow> real"
  initializer :: "layer list \<Rightarrow> tensor list"
  call :: "layer list \<Rightarrow> tensor list \<Rightarrow> tensor \<Rightarrow> tensor"
  gradient :: "(tensor list \<Rightarrow> real) \<Rightarrow> tensor list \<Rightarrow> tensor list"
  optimizers :: "string \<Rightarrow> ((string \<times> real) list \<Rightarrow> 'o) option"
  update_step :: "'o \<Rightarrow> var \<Rightarrow> tensor \<Rightarrow> tensor \<Rightarrow> 'o \<times> tensor"
  gan_discriminator_loss :: "tensor list \<Rightarrow> tensor list \<Rightarrow> real"
  gan_generator_loss :: "tensor list \<Rightarrow> real"
  mse_loss :: "tensor list \<Rightarrow> tensor list \<Rightarrow> real"
  encode :: "layer list \<Rightarrow> tensor list \<Rightarrow> tensor \<Rightarrow> tensor \<times> tensor"
  decode :: "layer list \<Rightarrow> tensor list \<Rightarrow> tensor \<Rightarrow> tensor"

text \<open>
  The mutable world of one Python process: the \<^verbatim>\<open>tf.Variable\<close> objects (a variable is
  its identity, the heap holds its value), the position in the random sequence, the
  checkpoint files, the existing directories, the image files, what was printed, and the
  log of the calls to \<^verbatim>\<open>tape.gradient\<close> and \<^verbatim>\<open>apply_gradients\<close> with the variables they
  were given.
\<close>

datatype optimizer_id = GenOptimizer | DiscOptimizer | VaeOptimizer

datatype event = TapeGradient "var list" | ApplyGradients optimizer_id "var list"

datatype printed = Text string | EpochLosses nat real real | EpochLoss nat real

record process =
  heap :: "var \<Rightarrow> tensor"
  next_var :: var
  rng :: nat
  checkpoints :: "string \<rightharpoonup> tensor list"
  directories :: "string set"
  image_files :: "string \<rightharpoonup> tensor"
  stdout :: "printed list"
  events :: "event list"

text \<open>A dataset is iterated once per epoch; a shuffled \<^verbatim>\<open>tf.data\<close> source yields other
  batches on each pass. \<open>ds k\<close> are the batches of pass number \<open>k\<close>.\<close>

type_synonym dataset = "nat \<Rightarrow> tensor list list"

text \<open>\<^verbatim>\<open>tf.random.normal([n, d])\<close>: \<open>n\<close> rows of \<open>d\<close> numbers, taken from position \<open>pos\<close> on.\<close>

definition random_normal :: "(nat \<Rightarrow> real) \<Rightarrow> nat \<Rightarrow> nat \<Rightarrow> nat \<Rightarrow> tensor list" where
  "random_normal stream pos n d = map (\<lambda>i. map (\<lambda>j. stream (pos + i * d + j)) [0..<d]) [0..<n]"

record model =
  layers :: "layer list"
  trainable_variables :: "var list"

definition weights :: "'a process_scheme \<Rightarrow> var list \<Rightarrow> tensor list" where
  "weights p vs = map (heap p) vs"

definition write_all :: "(var \<times> tensor) list \<Rightarrow> (var \<Rightarrow> tensor) \<Rightarrow> (var \<Rightarrow> tensor)" where
  "write_all vxs h = fold (\<lambda>(v, x) h'. h'(v := x)) vxs h"

text \<open>Creating the variables of a new model: fresh identities, initial values.\<close>

definition allocate :: "tensor list \<Rightarrow> 'a process_scheme \<Rightarrow> var list \<times> 'a process_scheme" where
  "allocate ws p =
     (let vs = [next_var p ..< next_var p + length ws]
      in (vs, p\<lparr>heap := write_all (zip vs ws) (heap p), next_var := next_var p + length ws\<rparr>))"

definition Sequential :: "'o library \<Rightarrow> layer list \<Rightarrow> 'a process_scheme \<Rightarrow> model \<times> 'a process_scheme" where
  "Sequential L ls p =
     (case allocate (initializer L ls) p of
        (vs, p') \<Rightarrow> (\<lparr>layers = ls, trainable_variables = vs\<rparr>, p'))"

text \<open>
  \<^verbatim>\<open>optimizer.apply_gradients(zip(gradients, variables))\<close>: the optimizer assigns a new
  value to each variable it is given, in order, and to no other.
\<close>

fun apply_gradients ::
  "'o library \<Rightarrow> 'o \<Rightarrow> (tensor \<times> var) list \<Rightarrow> (var \<Rightarrow> tensor) \<Rightarrow> 'o \<times> (var \<Rightarrow> tensor)" where
  "apply_gradients L opt [] h = (opt, h)"
| "apply_gradients L opt ((g, v) # gvs) h =
     (case update_step L opt v g (h v) of
        (opt', x) \<Rightarrow> apply_gradients L opt' gvs (h(v := x)))"

definition make_optimizer :: "'o library \<Rightarrow> string \<Rightarrow> (string \<times> real) list \<Rightarrow> error + 'o" where
  "make_optimizer L name kwargs =
     (case optimizers L name of
        None \<Rightarrow> Inl (AttributeError name)
      | Some ctor \<Rightarrow> Inr (ctor kwargs))"

text \<open>\<^verbatim>\<open>save_weights\<close> writes the values of a model's variables to a path;
  \<^verbatim>\<open>load_weights\<close> reads them back into a model of the same topology.\<close>

definition save_weights :: "var list \<Rightarrow> string \<Rightarrow> 'a process_scheme \<Rightarrow> 'a process_scheme" where
  "save_weights vs path p = p\<lparr>checkpoints := (checkpoints p)(path \<mapsto> weights p vs)\<rparr>"

definition load_weights :: "var list \<Rightarrow> string \<Rightarrow> 'a process_scheme \<Rightarrow> error + 'a process_scheme" where
  "load_weights vs path p =
     (case checkpoints p path of
        None \<Rightarrow> Inl (NotFoundError path)
      | Some ws \<Rightarrow>
          if length ws \<noteq> length vs then Inl (ValueError ''checkpoint does not match the model'')
          else Inr (p\<lparr>heap := write_all (zip vs ws) (heap p)\<rparr>))"

text \<open>\<^verbatim>\<open>for i, sample in enumerate(samples): imageio.imwrite(os.path.join(save_dir,
  "sample_" + str(i) + ".jpg"), sample)\<close>, counting from \<open>i\<close>.\<close>

fun imwrite_all :: "string \<Rightarrow> nat \<Rightarrow> tensor list \<Rightarrow> (string \<rightharpoonup> tensor) \<Rightarrow> (string \<rightharpoonup> tensor)" where
  "imwrite_all save_dir i [] files = files"
| "imwrite_all save_dir i (sample # rest) files =
     imwrite_all save_dir (i + 1) rest (files(path_join save_dir (sample_name i) \<mapsto> sample))"

text \<open>The arguments \<^verbatim>\<open>fit\<close> of both classes takes. \<open>save_dir\<close> is the value of the
  argument \<^verbatim>\<open>save_model\<close>: \<^verbatim>\<open>None\<close>, a string, or a value of another type.\<close>

datatype save_arg = NoDir | Dir string | NotAString

record fit_args =
  train_ds :: "dataset option"
  epochs :: int
  verbose :: int
  tensorboard :: bool
  save_model :: save_arg

section \<open>DCGAN (simplegan/gan/dcgan.py)\<close>

text \<open>\<^verbatim>\<open>self.config\<close>: the constructor's arguments that the modelled methods read.\<close>

record dcgan_config =
  cfg_noise_dim :: nat
  dropout_rate :: real
  gen_channels :: "int list"
  disc_channels :: "int list"
  gen_path :: "string option"
  disc_path :: "string option"

record dcgan = process +
  image_size :: "int list option"
  noise_dim :: nat
  gen_model :: "model option"
  disc_model :: "model option"
  config :: dcgan_config

text \<open>\<^verbatim>\<open>__init__\<close> (lines 52 to 70), in a process \<open>p\<close>.\<close>

definition DCGAN :: "dcgan_config \<Rightarrow> process \<Rightarrow> dcgan" where
  "DCGAN cfg p =
     \<lparr>heap = heap p, next_var = next_var p, rng = rng p, checkpoints = checkpoints p,
      directories = directories p, image_files = image_files p, stdout = stdout p,
      events = events p,
      image_size = None, noise_dim = cfg_noise_dim cfg, gen_model = None, disc_model = None,
      config = cfg\<rparr>"

text \<open>\<^verbatim>\<open>load_data\<close> (lines 72 to 127) as far as it changes the object:
  \<^verbatim>\<open>self.image_size = train_data.shape[1:]\<close>, for training data of shape \<open>shape\<close>.\<close>

definition load_data :: "int list \<Rightarrow> dcgan \<Rightarrow> dcgan" where
  "load_data shape self = self\<lparr>image_size := Some (drop 1 shape)\<rparr>"

text \<open>\<^verbatim>\<open>generator\<close> (lines 160 to 259): the layers added, then the model.\<close>

definition generator_layers :: "dcgan \<Rightarrow> error + layer list" where
  "generator_layers self =
     (let channels = gen_channels (config self);
          gen_layers = length channels;
          block = (\<lambda>c. [Conv2DTranspose c (1, 1), BatchNormalization, LeakyReLU])
      in ebind (subscript (image_size self) 0) (\<lambda>h.
         ebind (subscript (image_size self) 1) (\<lambda>w.
         ebind (getitem channels 0) (\<lambda>c0.
         ebind (conv_loop (gen_layers div 2) channels 0 block) (\<lambda>(first, i).
         ebind (getitem channels i) (\<lambda>ci.
         ebind (conv_loop (gen_layers div 2) channels i block) (\<lambda>(second, i').
         ebind (subscript (image_size self) 2) (\<lambda>ch.
           Inr ([Dense ((h div 4) * (w div 4) * (c0 * 2)), BatchNormalization, LeakyReLU,
                 Reshape [h div 4, w div 4, c0 * 2]]
                @ first
                @ [Conv2DTranspose ci (2, 2), BatchNormalization, LeakyReLU]
                @ second
                @ [Conv2DTranspose ch (2, 2)])))))))))"

definition generator :: "'o library \<Rightarrow> dcgan \<Rightarrow> error + model \<times> dcgan" where
  "generator L self = ebind (generator_layers self) (\<lambda>ls. Inr (Sequential L ls self))"

text \<open>\<^verbatim>\<open>discriminator\<close> (lines 261 to 322).\<close>

definition discriminator_layers :: "dcgan \<Rightarrow> error + layer list" where
  "discriminator_layers self =
     (let rate = dropout_rate (config self);
          channels = disc_channels (config self);
          disc_layers = length channels
      in ebind (getitem channels 0) (\<lambda>c0.
         ebind (mapM (\<lambda>i. ebind (getitem channels (int i))
                  (\<lambda>c. Inr [Conv2D c (1, 1), LeakyReLU, Dropout rate])) [0..<disc_layers]) (\<lambda>blocks.
         ebind (getitem channels (- 1)) (\<lambda>cl.
           Inr ([Conv2D (c0 div 2) (2, 2), LeakyReLU, Dropout rate]
                @ concat blocks
                @ [Conv2D (cl * 2) (2, 2), LeakyReLU, Dropout rate, Flatten, Dense 1])))))"

definition discriminator :: "'o library \<Rightarrow> dcgan \<Rightarrow> error + model \<times> dcgan" where
  "discriminator L self = ebind (discriminator_layers self) (\<lambda>ls. Inr (Sequential L ls self))"

text \<open>\<^verbatim>\<open>__load_model\<close> (lines 324 to 333).\<close>

definition load_model :: "'o library \<Rightarrow> dcgan \<Rightarrow> error + dcgan" where
  "load_model L self =
     ebind (generator L self) (\<lambda>(g, s1).
     ebind (discriminator L s1) (\<lambda>(d, s2).
     ebind (let s3 = s2\<lparr>gen_model := Some g, disc_model := Some d\<rparr>
            in case gen_path (config s3) of
                 None \<Rightarrow> Inr s3
               | Some path \<Rightarrow>
                   ebind (load_weights (trainable_variables g) path s3) (\<lambda>s.
                     Inr (s\<lparr>stdout := stdout s @ [Text ''Generator checkpoint restored'']\<rparr>))) (\<lambda>s4.
       case disc_path (config s4) of
         None \<Rightarrow> Inr s4
       | Some path \<Rightarrow>
           ebind (load_weights (trainable_variables d) path s4) (\<lambda>s.
             Inr (s\<lparr>stdout := stdout s @ [Text ''Discriminator checkpoint restored'']\<rparr>)))))"

text \<open>The arguments of \<^verbatim>\<open>fit\<close> (lines 335 to 347) and its local variables: the two
  optimizer objects, the step counter and the two running means.\<close>

record gan_fit_args = fit_args +
  gen_optimizer :: string
  disc_optimizer :: string
  gen_learning_rate :: real
  disc_learning_rate :: real
  beta_1 :: real

record 'o gan_locals =
  gen_opt :: 'o
  disc_opt :: 'o
  steps :: nat
  generator_loss :: mean_metric
  discriminator_loss :: mean_metric

text \<open>
  Lines 405 to 416, the discriminator update of one step: noise, fake samples from the
  generator, logits of the discriminator on fake and real data, the discriminator loss,
  its gradients with respect to \<^verbatim>\<open>self.disc_model.trainable_variables\<close>, and the update
  by \<^verbatim>\<open>disc_optimizer\<close>. The result is the loss, the optimizer and the new state.
\<close>

definition phase_D :: "'o library \<Rightarrow> tensor list \<Rightarrow> 'o \<Rightarrow> dcgan \<Rightarrow> error + real \<times> 'o \<times> dcgan" where
  "phase_D L data opt self =
     (case gen_model self of
        None \<Rightarrow> Inl (TypeError ''NoneType object is not callable'')
      | Some g \<Rightarrow>
     (case disc_model self of
        None \<Rightarrow> Inl (TypeError ''NoneType object is not callable'')
      | Some d \<Rightarrow>
          (let Z = random_normal (normal L) (rng self) (length data) (noise_dim self);
               s1 = self\<lparr>rng := rng self + length data * noise_dim self\<rparr>;
               fake = map (call L (layers g) (weights s1 (trainable_variables g))) Z;
               loss = (\<lambda>w. gan_discriminator_loss L
                              (map (call L (layers d) w) data)
                              (map (call L (layers d) w) fake));
               D_loss = loss (weights s1 (trainable_variables d));
               gradients = gradient L loss (weights s1 (trainable_variables d));
               s2 = s1\<lparr>events := events s1 @ [TapeGradient (trainable_variables d)]\<rparr>
           in case apply_gradients L opt (zip gradients (trainable_variables d)) (heap s2) of
                (opt', h) \<Rightarrow>
                  Inr (D_loss, opt',
                       s2\<lparr>heap := h,
                          events := events s2
                            @ [ApplyGradients DiscOptimizer (trainable_variables d)]\<rparr>))))"

text \<open>
  Lines 418 to 428, the generator update of the same step: new noise, fake samples, the
  discriminator's logits on them, the generator loss, its gradients with respect to
  \<^verbatim>\<open>self.gen_model.trainable_variables\<close>, and the update by \<^verbatim>\<open>gen_optimizer\<close>.
\<close>

definition phase_G :: "'o library \<Rightarrow> tensor list \<Rightarrow> 'o \<Rightarrow> dcgan \<Rightarrow> error + real \<times> 'o \<times> dcgan" where
  "phase_G L data opt self =
     (case gen_model self of
        None \<Rightarrow> Inl (TypeError ''NoneType object is not callable'')
      | Some g \<Rightarrow>
     (case disc_model self of
        None \<Rightarrow> Inl (TypeError ''NoneType object is not callable'')
      | Some d \<Rightarrow>
          (let Z = random_normal (normal L) (rng self) (length data) (noise_dim self);
               s1 = self\<lparr>rng := rng self + length data * noise_dim self\<rparr>;
               loss = (\<lambda>w. gan_generator_loss L
                              (map (call L (layers d) (weights s1 (trainable_variables d)))
                                 (map (call L (layers g) w) Z)));
               G_loss = loss (weights s1 (trainable_variables g));
               gradients = gradient L loss (weights s1 (trainable_variables g));
               s2 = s1\<lparr>events := events s1 @ [TapeGradient (trainable_variables g)]\<rparr>
           in case apply_gradients L opt (zip gradients (trainable_variables g)) (heap s2) of
                (opt', h) \<Rightarrow>
                  Inr (G_loss, opt',
                       s2\<lparr>heap := h,
                          events := events s2
                            @ [ApplyGradients GenOptimizer (trainable_variables g)]\<rparr>))))"

text \<open>The body of the inner loop (lines 405 to 433): both updates, then the two running
  means and the step counter.\<close>

definition train_step ::
  "'o library \<Rightarrow> tensor list \<Rightarrow> dcgan \<times> 'o gan_locals \<Rightarrow> error + dcgan \<times> 'o gan_locals" where
  "train_step L data sl =
     (case sl of (self, l) \<Rightarrow>
        ebind (phase_D L data (disc_opt l) self) (\<lambda>(D_loss, dopt, s1).
        ebind (phase_G L data (gen_opt l) s1) (\<lambda>(G_loss, gopt, s2).
          Inr (s2, l\<lparr>disc_opt := dopt, gen_opt := gopt,
                     generator_loss := update_state (generator_loss l) G_loss,
                     discriminator_loss := update_state (discriminator_loss l) D_loss,
                     steps := steps l + 1\<rparr>))))"

text \<open>\<^verbatim>\<open>for data in train_ds\<close> (line 403).\<close>

fun train_batches ::
  "'o library \<Rightarrow> tensor list list \<Rightarrow> dcgan \<times> 'o gan_locals \<Rightarrow> error + dcgan \<times> 'o gan_locals" where
  "train_batches L [] sl = Inr sl"
| "train_batches L (data # rest) sl = ebind (train_step L data sl) (train_batches L rest)"

text \<open>
  One epoch (lines 399 to 456): both running means are reset, the batches of this pass
  are trained on, and with \<^verbatim>\<open>verbose == 1\<close> a line is printed: \<open>EpochLosses e a b\<close> stands
  for \<^verbatim>\<open>Epoch: e D_loss: a G_loss b\<close>, where the source passes the generator's mean for
  \<open>a\<close> and the discriminator's for \<open>b\<close>.
\<close>

definition train_epoch ::
  "'o library \<Rightarrow> int \<Rightarrow> dataset \<Rightarrow> nat \<Rightarrow> dcgan \<times> 'o gan_locals \<Rightarrow> error + dcgan \<times> 'o gan_locals" where
  "train_epoch L verb ds epoch sl =
     (case sl of (self, l) \<Rightarrow>
        ebind (train_batches L (ds epoch)
                 (self, l\<lparr>generator_loss := reset_states (generator_loss l),
                          discriminator_loss := reset_states (discriminator_loss l)\<rparr>))
          (\<lambda>(s2, l2).
             Inr (if verb = 1
                  then s2\<lparr>stdout := stdout s2
                         @ [EpochLosses (epoch + 1) (result (generator_loss l2))
                                        (result (discriminator_loss l2))]\<rparr>
                  else s2, l2)))"

text \<open>\<^verbatim>\<open>for epoch in range(epochs)\<close> (line 397), over the list of epoch numbers.\<close>

fun train_epochs ::
  "'o library \<Rightarrow> int \<Rightarrow> dataset \<Rightarrow> nat list \<Rightarrow> dcgan \<times> 'o gan_locals \<Rightarrow> error + dcgan \<times> 'o gan_locals" where
  "train_epochs L verb ds [] sl = Inr sl"
| "train_epochs L verb ds (epoch # rest) sl =
     ebind (train_epoch L verb ds epoch sl) (train_epochs L verb ds rest)"

text \<open>Lines 458 to 466: the checkpoints written after the loop.\<close>

definition save_checkpoints :: "save_arg \<Rightarrow> dcgan \<Rightarrow> error + dcgan" where
  "save_checkpoints arg self =
     (case arg of
        NoDir \<Rightarrow> Inr self
      | NotAString \<Rightarrow> Inl (AssertionError ''Not a valid directory'')
      | Dir path \<Rightarrow>
          ebind (getitem path (- 1)) (\<lambda>c.
            case gen_model self of
              None \<Rightarrow> Inl (AttributeError ''NoneType object has no attribute save_weights'')
            | Some g \<Rightarrow>
           (case disc_model self of
              None \<Rightarrow> Inl (AttributeError ''NoneType object has no attribute save_weights'')
            | Some d \<Rightarrow>
                if c \<noteq> CHR ''/''
                then Inr (save_weights (trainable_variables d) (path @ ''/discriminator_checkpoint'')
                         (save_weights (trainable_variables g) (path @ ''/generator_checkpoint'') self))
                else Inr (save_weights (trainable_variables d) (path @ ''discriminator_checkpoint'')
                         (save_weights (trainable_variables g) (path @ ''generator_checkpoint'') self)))))"

text \<open>\<^verbatim>\<open>fit\<close> (lines 335 to 466).\<close>

definition optimizer_kwargs :: "string \<Rightarrow> real \<Rightarrow> real \<Rightarrow> (string \<times> real) list" where
  "optimizer_kwargs name rate beta =
     [(''learning_rate'', rate)] @ (if name = ''Adam'' then [(''beta_1'', beta)] else [])"

definition fit :: "'o library \<Rightarrow> dcgan \<Rightarrow> gan_fit_args \<Rightarrow> error + dcgan" where
  "fit L self args =
     (case train_ds args of
        None \<Rightarrow> Inl (AssertionError ''Initialize training data through train_ds parameter'')
      | Some ds \<Rightarrow>
          ebind (load_model L self) (\<lambda>s1.
          ebind (make_optimizer L (gen_optimizer args)
                   (optimizer_kwargs (gen_optimizer args) (gen_learning_rate args) (beta_1 args))) (\<lambda>gopt.
          ebind (make_optimizer L (disc_optimizer args)
                   (optimizer_kwargs (disc_optimizer args) (disc_learning_rate args) (beta_1 args))) (\<lambda>dopt.
          ebind (train_epochs L (verbose args) ds [0..<nat (epochs args)]
                   (s1, \<lparr>gen_opt = gopt, disc_opt = dopt, steps = 0,
                         generator_loss = Mean, discriminator_loss = Mean\<rparr>)) (\<lambda>(s2, l).
            save_checkpoints (save_model args) s2)))))"

text \<open>\<^verbatim>\<open>generate_samples\<close> (lines 468 to 491): the samples when \<^verbatim>\<open>save_dir\<close> is None,
  otherwise None after the image files are written.\<close>

definition generate_samples ::
  "'o library \<Rightarrow> dcgan \<Rightarrow> nat \<Rightarrow> string option \<Rightarrow> error + tensor list option \<times> dcgan" where
  "generate_samples L self n_samples save_dir =
     ebind (if gen_model self = None then load_model L self else Inr self) (\<lambda>s1.
       case gen_model s1 of
         None \<Rightarrow> Inl (TypeError ''NoneType object is not callable'')
       | Some g \<Rightarrow>
           (let Z = random_normal (normal L) (rng s1) n_samples (noise_dim s1);
                s2 = s1\<lparr>rng := rng s1 + n_samples * noise_dim s1\<rparr>;
                generated_samples = map (call L (layers g) (weights s2 (trainable_variables g))) Z
            in case save_dir of
                 None \<Rightarrow> Inr (Some generated_samples, s2)
               | Some dir \<Rightarrow>
                   if dir \<notin> directories s2 then Inl (AssertionError ''Directory does not exist'')
                   else Inr (None, s2\<lparr>image_files :=
                                        imwrite_all dir 0 generated_samples (image_files s2)\<rparr>)))"

section \<open>VAE (simplegan/autoencoder/vae.py)\<close>

record vae_config =
  interm_dim :: int
  latent_dim :: nat
  enc_units :: "int list"
  dec_units :: "int list"

text \<open>
  The Keras model \<^verbatim>\<open>vae\<close> returns: the Dense layers of its encoder and decoder in the
  order they are created, its trainable variables, and \<^verbatim>\<open>model.losses\<close>, the terms
  given to \<^verbatim>\<open>model.add_loss\<close>, each a function of the encoder's outputs \<open>z_mean\<close> and
  \<open>z_var\<close> for a batch.
\<close>

record vae_model =
  encoder_net :: "layer list"
  decoder_net :: "layer list"
  vae_variables :: "var list"
  losses :: "(tensor list \<Rightarrow> tensor list \<Rightarrow> real option) list"

record vae_object = process +
  model :: "vae_model option"
  vae_image_size :: "int list option"
  vae_config :: vae_config

text \<open>\<^verbatim>\<open>__init__\<close> (lines 48 to 61).\<close>

definition VAE :: "vae_config \<Rightarrow> process \<Rightarrow> vae_object" where
  "VAE cfg p =
     \<lparr>heap = heap p, next_var = next_var p, rng = rng p, checkpoints = checkpoints p,
      directories = directories p, image_files = image_files p, stdout = stdout p,
      events = events p,
      model = None, vae_image_size = None, vae_config = cfg\<rparr>"

text \<open>\<^verbatim>\<open>sampling\<close> (lines 153 to 163): \<^verbatim>\<open>z_mean + exp(0.5 * z_var) * epsilon\<close> with
  \<^verbatim>\<open>epsilon\<close> drawn for the batch, of \<open>zdim\<close> numbers per sample.\<close>

definition sampling :: "(nat \<Rightarrow> real) \<Rightarrow> nat \<Rightarrow> nat \<Rightarrow> tensor list \<times> tensor list \<Rightarrow> tensor list" where
  "sampling stream pos zdim distribution =
     (let z_mean = fst distribution;
          z_var = snd distribution;
          batch = length z_mean;
          epsilon = random_normal stream pos batch zdim
      in map2 (\<lambda>(m, v) e. map2 (\<lambda>(a, b) c. a + exp (0.5 * b) * c) (zip m v) e)
           (zip z_mean z_var) epsilon)"

text \<open>\<^verbatim>\<open>vae\<close> (lines 169 to 244).\<close>

definition vae :: "'o library \<Rightarrow> vae_object \<Rightarrow> vae_config \<Rightarrow> error + vae_model \<times> vae_object" where
  "vae L self cfg =
     (let encoder_layers = length (enc_units cfg);
          decoder_layers = length (dec_units cfg)
      in ebind (subscript (vae_image_size self) 0) (\<lambda>h.
         ebind (subscript (vae_image_size self) 1) (\<lambda>w.
         ebind (subscript (vae_image_size self) 2) (\<lambda>ch.
         ebind (getitem (enc_units cfg) 0) (\<lambda>e0.
         ebind (mapM (\<lambda>i. ebind (getitem (enc_units cfg) (int i)) (\<lambda>u. Inr (Dense u)))
                  [0..<encoder_layers]) (\<lambda>enc_dense.
         ebind (getitem (dec_units cfg) 0) (\<lambda>d0.
         ebind (mapM (\<lambda>i. ebind (getitem (dec_units cfg) (int i)) (\<lambda>u. Inr (Dense u)))
                  [0..<decoder_layers]) (\<lambda>dec_dense.
           (let enc_net = [Dense (e0 * 2)] @ enc_dense
                          @ [Dense (interm_dim cfg), Dense (int (latent_dim cfg)),
                             Dense (int (latent_dim cfg))];
                dec_net = [Dense (d0 div 2)] @ dec_dense @ [Dense (h * w * ch)]
            in case allocate (initializer L (enc_net @ dec_net)) self of
                 (vs, s1) \<Rightarrow>
                   Inr (\<lparr>encoder_net = enc_net, decoder_net = dec_net, vae_variables = vs,
                         losses = [\<lambda>z_mean z_var. kl_loss (concat z_mean) (concat z_var)]\<rparr>,
                        s1))))))))))"

text \<open>\<^verbatim>\<open>__load_model\<close> (lines 250 to 252).\<close>

definition vae_load_model :: "'o library \<Rightarrow> vae_object \<Rightarrow> error + vae_object" where
  "vae_load_model L self =
     ebind (vae L self (vae_config self)) (\<lambda>(m, s1). Inr (s1\<lparr>model := Some m\<rparr>))"

text \<open>\<^verbatim>\<open>self.model(data)\<close>: encoder, sampling with noise from position \<open>pos\<close>, decoder,
  with the values \<open>w\<close> of the model's variables.\<close>

definition vae_call ::
  "'o library \<Rightarrow> vae_model \<Rightarrow> nat \<Rightarrow> nat \<Rightarrow> tensor list \<Rightarrow> tensor list \<Rightarrow> tensor list" where
  "vae_call L m pos zdim w data =
     (let dist = map (encode L (encoder_net m) w) data
      in map (decode L (decoder_net m) w)
           (sampling (normal L) pos zdim (map fst dist, map snd dist)))"

text \<open>The arguments of \<^verbatim>\<open>fit\<close> (lines 254 to 263) and its local variables.\<close>

record vae_fit_args = fit_args +
  optimizer :: string
  learning_rate :: real

record 'o vae_locals =
  vae_opt :: 'o
  vae_steps :: nat
  train_loss :: mean_metric

text \<open>
  Lines 306 to 308: the scalar \<^verbatim>\<open>loss\<close> recorded on the tape, as a function of the
  values of the model's variables.
\<close>

definition vae_step_loss ::
  "'o library \<Rightarrow> vae_model \<Rightarrow> nat \<Rightarrow> nat \<Rightarrow> tensor list \<Rightarrow> tensor list \<Rightarrow> real" where
  "vae_step_loss L m pos zdim data w =
     (let data_recon = vae_call L m pos zdim w data in mse_loss L data data_recon)"

text \<open>The body of the inner loop (lines 306 to 315).\<close>

definition vae_train_step ::
  "'o library \<Rightarrow> tensor list \<Rightarrow> vae_object \<times> 'o vae_locals \<Rightarrow> error + vae_object \<times> 'o vae_locals" where
  "vae_train_step L data sl =
     (case sl of (self, l) \<Rightarrow>
       (case model self of
          None \<Rightarrow> Inl (TypeError ''NoneType object is not callable'')
        | Some m \<Rightarrow>
            (let zdim = latent_dim (vae_config self);
                 s1 = self\<lparr>rng := rng self + length data * zdim\<rparr>;
                 loss_fn = vae_step_loss L m (rng self) zdim data;
                 loss = loss_fn (weights s1 (vae_variables m));
                 gradients = gradient L loss_fn (weights s1 (vae_variables m));
                 s2 = s1\<lparr>events := events s1 @ [TapeGradient (vae_variables m)]\<rparr>
             in case apply_gradients L (vae_opt l) (zip gradients (vae_variables m)) (heap s2) of
                  (opt', h) \<Rightarrow>
                    Inr (s2\<lparr>heap := h,
                            events := events s2 @ [ApplyGradients VaeOptimizer (vae_variables m)]\<rparr>,
                         l\<lparr>vae_opt := opt',
                           train_loss := update_state (train_loss l) loss,
                           vae_steps := vae_steps l + 1\<rparr>))))"

fun vae_train_batches ::
  "'o library \<Rightarrow> tensor list list \<Rightarrow> vae_object \<times> 'o vae_locals \<Rightarrow> error + vae_object \<times> 'o vae_locals" where
  "vae_train_batches L [] sl = Inr sl"
| "vae_train_batches L (data # rest) sl =
     ebind (vae_train_step L data sl) (vae_train_batches L rest)"

text \<open>One epoch (lines 301 to 326); \<open>EpochLoss e a\<close> stands for the printed line
  \<^verbatim>\<open>Epoch: e reconstruction loss: a\<close>.\<close>

definition vae_train_epoch ::
  "'o library \<Rightarrow> int \<Rightarrow> dataset \<Rightarrow> nat \<Rightarrow> vae_object \<times> 'o vae_locals
     \<Rightarrow> error + vae_object \<times> 'o vae_locals" where
  "vae_train_epoch L verb ds epoch sl =
     (case sl of (self, l) \<Rightarrow>
        ebind (vae_train_batches L (ds epoch)
                 (self, l\<lparr>train_loss := reset_states (train_loss l)\<rparr>))
          (\<lambda>(s2, l2).
             Inr (if verb = 1
                  then s2\<lparr>stdout := stdout s2 @ [EpochLoss (epoch + 1) (result (train_loss l2))]\<rparr>
                  else s2, l2)))"

fun vae_train_epochs ::
  "'o library \<Rightarrow> int \<Rightarrow> dataset \<Rightarrow> nat list \<Rightarrow> vae_object \<times> 'o vae_locals
     \<Rightarrow> error + vae_object \<times> 'o vae_locals" where
  "vae_train_epochs L verb ds [] sl = Inr sl"
| "vae_train_epochs L verb ds (epoch # rest) sl =
     ebind (vae_train_epoch L verb ds epoch sl) (vae_train_epochs L verb ds rest)"

text \<open>Lines 328 to 334: the checkpoint written after the loop.\<close>

definition vae_save_checkpoint :: "save_arg \<Rightarrow> vae_object \<Rightarrow> error + vae_object" where
  "vae_save_checkpoint arg self =
     (case arg of
        NoDir \<Rightarrow> Inr self
      | NotAString \<Rightarrow> Inl (AssertionError ''Not a valid directory'')
      | Dir path \<Rightarrow>
          ebind (getitem path (- 1)) (\<lambda>c.
            case model self of
              None \<Rightarrow> Inl (AttributeError ''NoneType object has no attribute save_weights'')
            | Some m \<Rightarrow>
                if c \<noteq> CHR ''/''
                then Inr (save_weights (vae_variables m)
                            (path @ ''/variational_autoencoder_checkpoint'') self)
                else Inr (save_weights (vae_variables m)
                            (path @ ''variational_autoencoder_checkpoint'') self)))"

text \<open>\<^verbatim>\<open>fit\<close> (lines 254 to 334).\<close>

definition vae_fit :: "'o library \<Rightarrow> vae_object \<Rightarrow> vae_fit_args \<Rightarrow> error + vae_object" where
  "vae_fit L self args =
     (case train_ds args of
        None \<Rightarrow> Inl (AssertionError ''Initialize training data through train_ds parameter'')
      | Some ds \<Rightarrow>
          ebind (vae_load_model L self) (\<lambda>s1.
          ebind (make_optimizer L (optimizer args) [(''learning_rate'', learning_rate args)]) (\<lambda>opt.
          ebind (vae_train_epochs L (verbose args) ds [0..<nat (epochs args)]
                   (s1, \<lparr>vae_opt = opt, vae_steps = 0, train_loss = Mean\<rparr>)) (\<lambda>(s2, l).
            vae_save_checkpoint (save_model args) s2))))"

text \<open>
  \<^verbatim>\<open>generate_samples\<close> (lines 336 to 367). The loop concatenates the model's outputs on
  the batches of one pass over \<^verbatim>\<open>test_ds\<close>; \<^verbatim>\<open>reshape((-1, h, w, c))\<close> then cuts all
  entries into items of \<open>h * w * c\<close> entries and fails when that does not come out even.
\<close>

function chunks :: "nat \<Rightarrow> 'a list \<Rightarrow> 'a list list" where
  "chunks k xs = (if k = 0 \<or> xs = [] then [] else take k xs # chunks k (drop k xs))"
  by pat_completeness auto
termination
  by (relation "measure (\<lambda>(k, xs). length xs)") auto

definition np_reshape :: "tensor list \<Rightarrow> int \<Rightarrow> error + tensor list" where
  "np_reshape rows k =
     (let flat = concat rows
      in if k \<le> 0 \<or> int (length flat) mod k \<noteq> 0
         then Inl (ValueError ''cannot reshape array'')
         else Inr (chunks (nat k) flat))"

fun vae_predict ::
  "'o library \<Rightarrow> tensor list list \<Rightarrow> vae_object \<Rightarrow> error + tensor list \<times> vae_object" where
  "vae_predict L [] self = Inr ([], self)"
| "vae_predict L (data # rest) self =
     (case model self of
        None \<Rightarrow> Inl (TypeError ''NoneType object is not callable'')
      | Some m \<Rightarrow>
          (let zdim = latent_dim (vae_config self);
               s1 = self\<lparr>rng := rng self + length data * zdim\<rparr>;
               gen_sample = vae_call L m (rng self) zdim (weights s1 (vae_variables m)) data
           in ebind (vae_predict L rest s1) (\<lambda>(more_samples, s2).
                Inr (gen_sample @ more_samples, s2))))"

definition vae_generate_samples ::
  "'o library \<Rightarrow> vae_object \<Rightarrow> dataset option \<Rightarrow> string option
     \<Rightarrow> error + tensor list option \<times> vae_object" where
  "vae_generate_samples L self test_ds save_dir =
     (case test_ds of
        None \<Rightarrow> Inl (AssertionError ''Enter input test dataset'')
      | Some ds \<Rightarrow>
          ebind (vae_predict L (ds 0) self) (\<lambda>(rows, s1).
          ebind (subscript (vae_image_size s1) 0) (\<lambda>h.
          ebind (subscript (vae_image_size s1) 1) (\<lambda>w.
          ebind (subscript (vae_image_size s1) 2) (\<lambda>ch.
          ebind (np_reshape rows (h * w * ch)) (\<lambda>generated_samples.
            case save_dir of
              None \<Rightarrow> Inr (Some generated_samples, s1)
            | Some dir \<Rightarrow>
                if dir \<notin> directories s1 then Inl (AssertionError ''Directory does not exist'')
                else Inr (None, s1\<lparr>image_files :=
                                     imwrite_all dir 0 generated_samples (image_files s1)\<rparr>)))))))"

section \<open>Reading the log of gradient and optimizer calls\<close>

text \<open>The four calls one training step of the DCGAN makes, for generator \<open>g\<close> and
  discriminator \<open>d\<close>, and the number of updates an optimizer made in a log.\<close>

definition step_events :: "model \<Rightarrow> model \<Rightarrow> event list" where
  "step_events g d =
     [TapeGradient (trainable_variables d), ApplyGradients DiscOptimizer (trainable_variables d),
      TapeGradient (trainable_variables g), ApplyGradients GenOptimizer (trainable_variables g)]"



section \<open>A small instance for concrete runs\<close>

text \<open>
  A library whose functions can be computed by hand, and a process, models and datasets
  to run the methods on: every freshly built network has one variable with the value
  \<open>[0]\<close>, every gradient is \<open>[1]\<close>, and an optimizer subtracts the gradient. The encoder of
  the VAE answers \<open>z_mean = [1]\<close>, \<open>z_var = [0]\<close> for every sample.
\<close>

definition toy_library :: "unit library" where
  "toy_library =
     \<lparr>normal = (\<lambda>i. real i),
      initializer = (\<lambda>ls. [[0]]),
      call = (\<lambda>ls w x. x),
      gradient = (\<lambda>loss w. map (\<lambda>x. [1]) w),
      optimizers = (\<lambda>name. if name = ''Adam'' \<or> name = ''SGD'' then Some (\<lambda>kwargs. ()) else None),
      update_step = (\<lambda>opt v g x. (opt, map2 (\<lambda>a b. a - b) x g)),
      gan_discriminator_loss = (\<lambda>real_logits fake_logits. 1),
      gan_generator_loss = (\<lambda>fake_logits. 2),
      mse_loss = (\<lambda>a b. 3),
      encode = (\<lambda>ls w x. ([1], [0])),
      decode = (\<lambda>ls w z. z)\<rparr>"

definition toy_process :: process where
  "toy_process =
     \<lparr>heap = (\<lambda>v. []), next_var = 0, rng = 0, checkpoints = Map.empty,
      directories = {''out''}, image_files = Map.empty, stdout = [], events = []\<rparr>"

definition toy_config :: dcgan_config where
  "toy_config =
     \<lparr>cfg_noise_dim = 1, dropout_rate = 0.4, gen_channels = [64, 32, 16],
      disc_channels = [16, 32, 64], gen_path = None, disc_path = None\<rparr>"

text \<open>A DCGAN after \<^verbatim>\<open>load_data\<close> on 28 by 28 images with one channel.\<close>

definition toy_dcgan :: dcgan where
  "toy_dcgan = load_data [60000, 28, 28, 1] (DCGAN toy_config toy_process)"

text \<open>Two batches of one sample on every pass.\<close>

definition toy_dataset :: dataset where
  "toy_dataset k = [[[0]], [[1]]]"

definition toy_fit_args :: gan_fit_args where
  "toy_fit_args =
     \<lparr>train_ds = Some toy_dataset, epochs = 2, verbose = 1, tensorboard = False,
      save_model = NoDir,
      gen_optimizer = ''Adam'', disc_optimizer = ''Adam'',
      gen_learning_rate = 0.0001, disc_learning_rate = 0.0002, beta_1 = 0.5\<rparr>"

definition toy_vae_config :: vae_config where
  "toy_vae_config = \<lparr>interm_dim = 256, latent_dim = 1, enc_units = [256, 128], dec_units = [128, 256]\<rparr>"

definition toy_vae :: vae_object where
  "toy_vae = (VAE toy_vae_config toy_process)\<lparr>vae_image_size := Some [28, 28, 1]\<rparr>"

definition toy_vae_fit_args :: vae_fit_args where
  "toy_vae_fit_args =
     \<lparr>train_ds = Some (\<lambda>k. [[[0]]]), epochs = 1, verbose = 1, tensorboard = False,
      save_model = NoDir, optimizer = ''Adam'', learning_rate = 0.001\<rparr>"

section \<open>Properties of the KL-divergence term\<close>

lemma sum_list_nth: "sum_list xs = (\<Sum>i<length xs. xs ! i)"
  by (simp add: sum_list_sum_nth atLeast0LessThan)

lemma kl_terms_nth:
  assumes "length z_mean = length z_var" and "i < length z_var"
  shows "t_add_scalar (t_sub (t_sub z_var (t_square z_mean)) (t_exp z_var)) 1 ! i
       = z_var ! i - (z_mean ! i)\<^sup>2 - exp (z_var ! i) + 1"
  using assms by (simp add: t_add_scalar_def t_sub_def t_square_def t_exp_def power2_eq_square)

lemma kl_terms_length:
  "length z_mean = length z_var \<Longrightarrow>
   length (t_add_scalar (t_sub (t_sub z_var (t_square z_mean)) (t_exp z_var)) 1) = length z_var"
  by (simp add: t_add_scalar_def t_sub_def t_square_def t_exp_def)

lemma kl_loss_eq_spec:
  assumes "length z_mean = length z_var" and "z_var \<noteq> []"
  shows "kl_loss z_mean z_var = Some (kl_divergence_spec z_mean z_var)"
proof -
  let ?t = "t_add_scalar (t_sub (t_sub z_var (t_square z_mean)) (t_exp z_var)) 1"
  have len: "length ?t = length z_var" using assms(1) by (rule kl_terms_length)
  have ne: "?t \<noteq> []" using len assms(2) by auto
  have "sum_list ?t = (\<Sum>i<length z_var. ?t ! i)"
    using sum_list_nth [of ?t] len by simp
  also have "\<dots> = (\<Sum>i<length z_var. z_var ! i - (z_mean ! i)\<^sup>2 - exp (z_var ! i) + 1)"
    by (rule sum.cong) (simp_all add: kl_terms_nth [OF assms(1)])
  finally show ?thesis
    using ne len by (simp add: kl_loss_def reduce_mean_def kl_divergence_spec_def)
qed

lemma kl_loss_zero: "0 < n \<Longrightarrow> kl_loss (replicate n 0) (replicate n 0) = Some 0"
  by (simp add: kl_loss_def reduce_mean_def t_add_scalar_def t_sub_def t_square_def t_exp_def
      zip_replicate map_replicate sum_list_replicate)

lemma kl_loss_empty: "kl_loss [] [] = None"
  by (simp add: kl_loss_def reduce_mean_def t_add_scalar_def t_sub_def t_square_def t_exp_def)

text \<open>
  Claim C4. The KL term the VAE computes is \<open>-0.5 * mean(z_var - z_mean^2 - exp(z_var) + 1)\<close>
  over the entries of the latent batch, and where every entry of \<open>z_mean\<close> and of \<open>z_var\<close>
  is 0 it is exactly 0. The latent batch has at least one entry and \<open>z_mean\<close>, \<open>z_var\<close>
  have the same shape, as the two Dense layers of width \<open>latent_dim\<close> give it.
\<close>

theorem kl_loss_is_spec_formula:
  assumes "length z_mean = length z_var" and "z_var \<noteq> []"
  shows "kl_loss z_mean z_var = Some (kl_divergence_spec z_mean z_var)
       \<and> kl_loss (replicate (length z_var) 0) (replicate (length z_var) 0) = Some 0"
  using assms kl_loss_eq_spec [OF assms] kl_loss_zero [of "length z_var"] by simp

theorem kl_loss_is_spec_formula_witness:
  "length [1, 0 :: real] = length [0, 0 :: real] \<and> [0, 0 :: real] \<noteq> []
   \<and> kl_loss [1, 0] [0, 0] = Some (1 / 4)
   \<and> kl_loss (replicate (length [0, 0 :: real]) 0) (replicate (length [0, 0 :: real]) 0) = Some 0"
  using kl_loss_is_spec_formula [of "[1, 0]" "[0, 0]"]
  by (simp add: kl_divergence_spec_def lessThan_Suc numeral_2_eq_2)

section \<open>Basic facts about exceptions and indexing\<close>

lemma ebind_Inl [simp]: "ebind (Inl e) f = Inl e"
  by (simp add: ebind_def)

lemma ebind_Inr [simp]: "ebind (Inr x) f = f x"
  by (simp add: ebind_def)

lemma ebind_eq_Inr: "ebind m f = Inr y \<longleftrightarrow> (\<exists>x. m = Inr x \<and> f x = Inr y)"
  by (cases m) simp_all

lemma mapM_total:
  "(\<And>x. x \<in> set xs \<Longrightarrow> \<exists>y. f x = Inr y) \<Longrightarrow> \<exists>ys. mapM f xs = Inr ys"
proof (induction xs)
  case Nil
  show ?case by simp
next
  case (Cons x xs)
  from Cons.prems [of x] obtain y where y: "f x = Inr y" by auto
  from Cons.IH Cons.prems obtain ys where "mapM f xs = Inr ys" by auto
  with y show ?case by simp
qed

lemma getitem_in_range: "0 \<le> i \<Longrightarrow> i < int (length xs) \<Longrightarrow> getitem xs i = Inr (xs ! nat i)"
  by (simp add: getitem_def)

lemma getitem_empty: "getitem [] i = Inl (IndexError ''index out of range'')"
  by (simp add: getitem_def)


section \<open>Construction of the convolutional autoencoder\<close>










lemma build_model_empty_encoder:
  "build_model ConvolutionalAutoencoder
     [''enc_channels'' \<mapsto> PyList [], ''encoder_layers'' \<mapsto> PyInt 0, ''dec_channels'' \<mapsto> PyList [64]]
   = Inl (IndexError ''index out of range'')"
  by (simp add: build_model_def encoder_def lookup_default_def len_def index_def getitem_def)

section \<open>The training loop of the DCGAN\<close>

lemma apply_gradients_frame:
  "v \<notin> snd ` set gvs \<Longrightarrow> snd (apply_gradients L opt gvs h) v = h v"
proof (induction gvs arbitrary: opt h)
  case Nil
  show ?case by simp
next
  case (Cons gv gvs)
  obtain g u where gv: "gv = (g, u)" by (cases gv)
  obtain opt' x where st: "update_step L opt u g (h u) = (opt', x)"
    by (cases "update_step L opt u g (h u)")
  from Cons.prems gv have ne: "v \<noteq> u" and rest: "v \<notin> snd ` set gvs" by auto
  have "snd (apply_gradients L opt' gvs (h(u := x))) v = (h(u := x)) v"
    using rest by (rule Cons.IH)
  with ne gv st show ?case by simp
qed

lemma apply_gradients_zip_frame:
  "v \<notin> set vs \<Longrightarrow> snd (apply_gradients L opt (zip gs vs) h) v = h v"
  by (rule apply_gradients_frame) (auto dest: set_zip_rightD)

lemma phase_D_result:
  assumes "gen_model self = Some g" and "disc_model self = Some d"
  shows "\<exists>D_loss opt' h.
           phase_D L data opt self =
             Inr (D_loss, opt',
                  self\<lparr>heap := h, rng := rng self + length data * noise_dim self,
                       events := events self @ [TapeGradient (trainable_variables d),
                                                ApplyGradients DiscOptimizer (trainable_variables d)]\<rparr>)
         \<and> (\<forall>v. v \<notin> set (trainable_variables d) \<longrightarrow> h v = heap self v)"
proof -
  let ?s1 = "self\<lparr>rng := rng self + length data * noise_dim self\<rparr>"
  let ?Z = "random_normal (normal L) (rng self) (length data) (noise_dim self)"
  let ?fake = "map (call L (layers g) (weights ?s1 (trainable_variables g))) ?Z"
  let ?loss = "\<lambda>w. gan_discriminator_loss L (map (call L (layers d) w) data)
                      (map (call L (layers d) w) ?fake)"
  let ?gs = "gradient L ?loss (weights ?s1 (trainable_variables d))"
  obtain opt' h where ag:
    "apply_gradients L opt (zip ?gs (trainable_variables d)) (heap self) = (opt', h)"
    by (cases "apply_gradients L opt (zip ?gs (trainable_variables d)) (heap self)")
  have fr: "\<forall>v. v \<notin> set (trainable_variables d) \<longrightarrow> h v = heap self v"
    using apply_gradients_zip_frame [of _ "trainable_variables d" L opt ?gs "heap self"] ag
    by simp
  have "phase_D L data opt self =
             Inr (?loss (weights ?s1 (trainable_variables d)), opt',
                  self\<lparr>heap := h, rng := rng self + length data * noise_dim self,
                       events := events self @ [TapeGradient (trainable_variables d),
                                                ApplyGradients DiscOptimizer (trainable_variables d)]\<rparr>)"
    using assms ag by (simp add: phase_D_def Let_def)
  with fr show ?thesis by blast
qed

lemma phase_G_result:
  assumes "gen_model self = Some g" and "disc_model self = Some d"
  shows "\<exists>G_loss opt' h.
           phase_G L data opt self =
             Inr (G_loss, opt',
                  self\<lparr>heap := h, rng := rng self + length data * noise_dim self,
                       events := events self @ [TapeGradient (trainable_variables g),
                                                ApplyGradients GenOptimizer (trainable_variables g)]\<rparr>)
         \<and> (\<forall>v. v \<notin> set (trainable_variables g) \<longrightarrow> h v = heap self v)"
proof -
  let ?s1 = "self\<lparr>rng := rng self + length data * noise_dim self\<rparr>"
  let ?Z = "random_normal (normal L) (rng self) (length data) (noise_dim self)"
  let ?loss = "\<lambda>w. gan_generator_loss L
                      (map (call L (layers d) (weights ?s1 (trainable_variables d)))
                         (map (call L (layers g) w) ?Z))"
  let ?gs = "gradient L ?loss (weights ?s1 (trainable_variables g))"
  obtain opt' h where ag:
    "apply_gradients L opt (zip ?gs (trainable_variables g)) (heap self) = (opt', h)"
    by (cases "apply_gradients L opt (zip ?gs (trainable_variables g)) (heap self)")
  have fr: "\<forall>v. v \<notin> set (trainable_variables g) \<longrightarrow> h v = heap self v"
    using apply_gradients_zip_frame [of _ "trainable_variables g" L opt ?gs "heap self"] ag
    by simp
  have "phase_G L data opt self =
             Inr (?loss (weights ?s1 (trainable_variables g)), opt',
                  self\<lparr>heap := h, rng := rng self + length data * noise_dim self,
                       events := events self @ [TapeGradient (trainable_variables g),
                                                ApplyGradients GenOptimizer (trainable_variables g)]\<rparr>)"
    using assms ag by (simp add: phase_G_def Let_def)
  with fr show ?thesis by blast
qed

lemma train_step_result:
  assumes "gen_model self = Some g" and "disc_model self = Some d"
  shows "\<exists>h r l'.
           train_step L data (self, l) =
             Inr (self\<lparr>heap := h, rng := r, events := events self @ step_events g d\<rparr>, l')
         \<and> steps l' = steps l + 1
         \<and> m_count (generator_loss l') = m_count (generator_loss l) + 1
         \<and> m_count (discriminator_loss l') = m_count (discriminator_loss l) + 1"
proof -
  from phase_D_result [OF assms, of L data "disc_opt l"]
  obtain D_loss dopt h1 where
    D: "phase_D L data (disc_opt l) self =
          Inr (D_loss, dopt,
               self\<lparr>heap := h1, rng := rng self + length data * noise_dim self,
                    events := events self @ [TapeGradient (trainable_variables d),
                                             ApplyGradients DiscOptimizer (trainable_variables d)]\<rparr>)"
    by blast
  let ?s1 = "self\<lparr>heap := h1, rng := rng self + length data * noise_dim self,
                    events := events self @ [TapeGradient (trainable_variables d),
                                             ApplyGradients DiscOptimizer (trainable_variables d)]\<rparr>"
  have g1: "gen_model ?s1 = Some g" and d1: "disc_model ?s1 = Some d"
    using assms by simp_all
  from phase_G_result [OF g1 d1, of L data "gen_opt l"]
  obtain G_loss gopt h2 where
    G: "phase_G L data (gen_opt l) ?s1 =
          Inr (G_loss, gopt,
               ?s1\<lparr>heap := h2, rng := rng ?s1 + length data * noise_dim ?s1,
                    events := events ?s1 @ [TapeGradient (trainable_variables g),
                                            ApplyGradients GenOptimizer (trainable_variables g)]\<rparr>)"
    by blast
  show ?thesis
    using D G by (simp add: train_step_def step_events_def update_state_def) blast
qed

lemma train_batches_result:
  assumes "gen_model self = Some g" and "disc_model self = Some d"
  shows "\<exists>h r l'.
           train_batches L batches (self, l) =
             Inr (self\<lparr>heap := h, rng := r,
                      events := events self @ concat (replicate (length batches) (step_events g d))\<rparr>, l')
         \<and> steps l' = steps l + length batches
         \<and> m_count (generator_loss l') = m_count (generator_loss l) + length batches
         \<and> m_count (discriminator_loss l') = m_count (discriminator_loss l) + length batches"
  using assms
proof (induction batches arbitrary: self l)
  case Nil
  have "self = self\<lparr>heap := heap self, rng := rng self, events := events self\<rparr>" by simp
  then show ?case by (metis (no_types) train_batches.simps(1) add.right_neutral append_Nil2
        concat.simps(1) list.size(3) replicate_0)
next
  case (Cons data rest)
  from train_step_result [OF Cons.prems, of L data l]
  obtain h r l1 where
    st: "train_step L data (self, l) =
           Inr (self\<lparr>heap := h, rng := r, events := events self @ step_events g d\<rparr>, l1)"
    and c1: "steps l1 = steps l + 1"
       "m_count (generator_loss l1) = m_count (generator_loss l) + 1"
       "m_count (discriminator_loss l1) = m_count (discriminator_loss l) + 1"
    by blast
  let ?s1 = "self\<lparr>heap := h, rng := r, events := events self @ step_events g d\<rparr>"
  have g1: "gen_model ?s1 = Some g" and d1: "disc_model ?s1 = Some d"
    using Cons.prems by simp_all
  from Cons.IH [OF g1 d1, of l1]
  obtain h' r' l2 where
    rest: "train_batches L rest (?s1, l1) =
             Inr (?s1\<lparr>heap := h', rng := r',
                      events := events ?s1 @ concat (replicate (length rest) (step_events g d))\<rparr>, l2)"
    and c2: "steps l2 = steps l1 + length rest"
       "m_count (generator_loss l2) = m_count (generator_loss l1) + length rest"
       "m_count (discriminator_loss l2) = m_count (discriminator_loss l1) + length rest"
    by blast
  show ?case
    using st rest c1 c2 by simp blast
qed

lemma reset_states_eq: "reset_states m = Mean"
  by (simp add: reset_states_def Mean_def)

lemma train_epoch_result:
  assumes "gen_model self = Some g" and "disc_model self = Some d"
  shows "\<exists>h r out l'.
           train_epoch L verb ds epoch (self, l) =
             Inr (self\<lparr>heap := h, rng := r,
                      events := events self @ concat (replicate (length (ds epoch)) (step_events g d)),
                      stdout := out\<rparr>, l')
         \<and> steps l' = steps l + length (ds epoch)
         \<and> m_count (generator_loss l') = length (ds epoch)
         \<and> m_count (discriminator_loss l') = length (ds epoch)"
proof -
  let ?l0 = "l\<lparr>generator_loss := reset_states (generator_loss l),
               discriminator_loss := reset_states (discriminator_loss l)\<rparr>"
  from train_batches_result [OF assms, of L "ds epoch" ?l0]
  obtain h r l' where
    tb: "train_batches L (ds epoch) (self, ?l0) =
           Inr (self\<lparr>heap := h, rng := r,
                    events := events self @ concat (replicate (length (ds epoch)) (step_events g d))\<rparr>, l')"
    and c: "steps l' = steps ?l0 + length (ds epoch)"
       "m_count (generator_loss l') = m_count (generator_loss ?l0) + length (ds epoch)"
       "m_count (discriminator_loss l') = m_count (discriminator_loss ?l0) + length (ds epoch)"
    by blast
  show ?thesis
  proof (cases "verb = 1")
    case True
    with tb c show ?thesis
      by (simp add: train_epoch_def reset_states_def) blast
  next
    case False
    with tb c show ?thesis
      apply (simp add: train_epoch_def reset_states_def)
      apply (rule exI [of _ h], rule exI [of _ r], rule exI [of _ "stdout self"])
      apply simp
      done
  qed
qed



lemma generator_layers_frame [simp]:
  "generator_layers (self\<lparr>heap := h, next_var := n\<rparr>) = generator_layers self"
  by (simp add: generator_layers_def)

lemma discriminator_layers_frame [simp]:
  "discriminator_layers (self\<lparr>heap := h, next_var := n\<rparr>) = discriminator_layers self"
  by (simp add: discriminator_layers_def)

lemma restore_frame:
  fixes s :: dcgan
  assumes "(case p of None \<Rightarrow> Inr s
            | Some path \<Rightarrow> ebind (load_weights vs path s)
                 (\<lambda>s. Inr (s\<lparr>stdout := stdout s @ [t]\<rparr>))) = Inr s'"
  shows "\<exists>h out. s' = s\<lparr>heap := h, stdout := out\<rparr>"
proof (cases p)
  case None
  with assms have "s' = s\<lparr>heap := heap s, stdout := stdout s\<rparr>" by simp
  then show ?thesis by blast
next
  case (Some path)
  with assms obtain s1 where l: "load_weights vs path s = Inr s1"
    and s': "s' = s1\<lparr>stdout := stdout s1 @ [t]\<rparr>"
    by (cases "load_weights vs path s") auto
  from l obtain h where "s1 = s\<lparr>heap := h\<rparr>"
    by (auto simp: load_weights_def split: option.splits if_splits)
  with s' have "s' = s\<lparr>heap := h, stdout := stdout s @ [t]\<rparr>" by simp
  then show ?thesis by blast
qed

lemma generator_Inr:
  assumes "generator L self = Inr (g, s1)"
  shows "generator_layers self = Inr (layers g)
       \<and> trainable_variables g = [next_var self ..< next_var self + length (initializer L (layers g))]
       \<and> (\<exists>h. s1 = self\<lparr>heap := h, next_var := next_var self + length (initializer L (layers g))\<rparr>)"
  using assms
  by (cases "generator_layers self")
     (auto simp: generator_def Sequential_def allocate_def Let_def)

lemma discriminator_Inr:
  assumes "discriminator L self = Inr (d, s1)"
  shows "discriminator_layers self = Inr (layers d)
       \<and> trainable_variables d = [next_var self ..< next_var self + length (initializer L (layers d))]
       \<and> (\<exists>h. s1 = self\<lparr>heap := h, next_var := next_var self + length (initializer L (layers d))\<rparr>)"
  using assms
  by (cases "discriminator_layers self")
     (auto simp: discriminator_def Sequential_def allocate_def Let_def)

lemma load_model_Inr:
  assumes "load_model L self = Inr s'"
  shows "\<exists>g d. gen_model s' = Some g \<and> disc_model s' = Some d
     \<and> generator_layers self = Inr (layers g) \<and> discriminator_layers self = Inr (layers d)
     \<and> trainable_variables g = [next_var self ..< next_var self + length (initializer L (layers g))]
     \<and> trainable_variables d = [next_var self + length (initializer L (layers g)) ..< next_var s']
     \<and> next_var s' = next_var self + length (initializer L (layers g))
                        + length (initializer L (layers d))
     \<and> events s' = events self \<and> rng s' = rng self \<and> noise_dim s' = noise_dim self
     \<and> config s' = config self \<and> image_size s' = image_size self
     \<and> checkpoints s' = checkpoints self \<and> directories s' = directories self
     \<and> image_files s' = image_files self"
proof -
  obtain g s1 where G: "generator L self = Inr (g, s1)"
    using assms by (cases "generator L self") (auto simp: load_model_def)
  obtain d s2 where D: "discriminator L s1 = Inr (d, s2)"
    using assms G by (cases "discriminator L s1") (auto simp: load_model_def)
  let ?s3 = "s2\<lparr>gen_model := Some g, disc_model := Some d\<rparr>"
  let ?A = "case gen_path (config ?s3) of None \<Rightarrow> Inr ?s3
            | Some path \<Rightarrow> ebind (load_weights (trainable_variables g) path ?s3)
                 (\<lambda>s. Inr (s\<lparr>stdout := stdout s @ [Text ''Generator checkpoint restored'']\<rparr>))"
  obtain s4 where A: "?A = Inr s4"
    using assms G D by (cases ?A) (auto simp: load_model_def Let_def)
  have B: "(case disc_path (config s4) of None \<Rightarrow> Inr s4
            | Some path \<Rightarrow> ebind (load_weights (trainable_variables d) path s4)
                 (\<lambda>s. Inr (s\<lparr>stdout := stdout s @ [Text ''Discriminator checkpoint restored'']\<rparr>)))
           = Inr s'"
    using assms G D A by (simp add: load_model_def Let_def)
  from restore_frame [OF A] obtain h4 out4 where s4: "s4 = ?s3\<lparr>heap := h4, stdout := out4\<rparr>"
    by blast
  from restore_frame [OF B] obtain h5 out5 where s5: "s' = s4\<lparr>heap := h5, stdout := out5\<rparr>"
    by blast
  from generator_Inr [OF G] obtain h1 where
    g: "generator_layers self = Inr (layers g)"
       "trainable_variables g = [next_var self ..< next_var self + length (initializer L (layers g))]"
    and s1: "s1 = self\<lparr>heap := h1, next_var := next_var self + length (initializer L (layers g))\<rparr>"
    by blast
  from discriminator_Inr [OF D] obtain h2 where
    d: "discriminator_layers s1 = Inr (layers d)"
       "trainable_variables d = [next_var s1 ..< next_var s1 + length (initializer L (layers d))]"
    and s2: "s2 = s1\<lparr>heap := h2, next_var := next_var s1 + length (initializer L (layers d))\<rparr>"
    by blast
  have dl: "discriminator_layers self = Inr (layers d)"
    using d(1) s1 by simp
  show ?thesis
    apply (rule exI [of _ g], rule exI [of _ d])
    using g d(2) dl by (simp add: s5 s4 s2 s1)
qed

lemma getitem_last: "xs \<noteq> [] \<Longrightarrow> getitem xs (- 1) = Inr (last xs)"
  by (cases xs rule: rev_cases) (simp_all add: getitem_def nat_add_distrib)


lemma save_checkpoints_Dir:
  assumes "gen_model self = Some g" and "disc_model self = Some d" and "path \<noteq> []"
  shows "save_checkpoints (Dir path) self =
     Inr (self\<lparr>checkpoints := (checkpoints self)
       ((if last path = CHR ''/'' then path else path @ ''/'') @ ''generator_checkpoint''
           \<mapsto> weights self (trainable_variables g),
        (if last path = CHR ''/'' then path else path @ ''/'') @ ''discriminator_checkpoint''
           \<mapsto> weights self (trainable_variables d))\<rparr>)"
  using assms by (simp add: save_checkpoints_def getitem_last save_weights_def weights_def)

lemma save_checkpoints_empty: "save_checkpoints (Dir []) self = Inl (IndexError ''index out of range'')"
  by (simp add: save_checkpoints_def getitem_def)


lemma make_optimizer_Some:
  "optimizers L name = Some ctor \<Longrightarrow> make_optimizer L name kwargs = Inr (ctor kwargs)"
  by (simp add: make_optimizer_def)

lemma load_model_disjoint:
  assumes "load_model L self = Inr s'"
  shows "\<exists>g d. gen_model s' = Some g \<and> disc_model s' = Some d
           \<and> set (trainable_variables g) \<inter> set (trainable_variables d) = {}"
proof -
  from load_model_Inr [OF assms] obtain g d where
    "gen_model s' = Some g" "disc_model s' = Some d"
    "trainable_variables g = [next_var self ..< next_var self + length (initializer L (layers g))]"
    "trainable_variables d = [next_var self + length (initializer L (layers g)) ..< next_var s']"
    by blast
  then show ?thesis by auto
qed

section \<open>Building the networks of the DCGAN\<close>

lemma conv_loop_ok:
  "0 \<le> k \<Longrightarrow> k + int n \<le> int (length chs) \<Longrightarrow>
   \<exists>ls. conv_loop n chs k block = Inr (ls, k + int n)"
proof (induction n arbitrary: k)
  case 0
  show ?case by simp
next
  case (Suc n)
  then have c: "getitem chs k = Inr (chs ! nat k)"
    by (simp add: getitem_in_range)
  from Suc.prems have "0 \<le> k + 1" and "k + 1 + int n \<le> int (length chs)" by simp_all
  from Suc.IH [OF this] obtain ls where "conv_loop n chs (k + 1) block = Inr (ls, k + 1 + int n)" ..
  with c show ?case by (simp add: add.assoc add.commute)
qed

lemma conv_loop_Suc_Inr:
  assumes "conv_loop (Suc n) chs k block = Inr (ls, k')"
  shows "\<exists>c ls'. getitem chs k = Inr c \<and> conv_loop n chs (k + 1) block = Inr (ls', k')
                 \<and> ls = block c @ ls'"
proof -
  obtain c where c: "getitem chs k = Inr c"
    using assms by (cases "getitem chs k") auto
  obtain ls' k'' where r: "conv_loop n chs (k + 1) block = Inr (ls', k'')"
    using assms c by (cases "conv_loop n chs (k + 1) block") auto
  with assms c show ?thesis by simp
qed

lemma model_output_shape_append:
  "model_output_shape (a @ b) sh =
     (case model_output_shape a sh of None \<Rightarrow> None | Some sh' \<Rightarrow> model_output_shape b sh')"
  by (induction a arbitrary: sh) (auto split: option.splits)

lemma conv_loop_shape:
  assumes "conv_loop n chs k (\<lambda>c. [Conv2DTranspose c (1, 1), BatchNormalization, LeakyReLU])
             = Inr (ls, k')"
  shows "\<exists>c'. model_output_shape ls [h, w, c] = Some [h, w, c']"
  using assms
proof (induction n arbitrary: k ls c)
  case 0
  then show ?case by simp
next
  case (Suc n)
  from conv_loop_Suc_Inr [OF Suc.prems] obtain c1 ls' where
    r: "conv_loop n chs (k + 1) (\<lambda>c. [Conv2DTranspose c (1, 1), BatchNormalization, LeakyReLU])
          = Inr (ls', k')"
    and ls: "ls = [Conv2DTranspose c1 (1, 1), BatchNormalization, LeakyReLU] @ ls'"
    by blast
  from Suc.IH [OF r, of c1] obtain c' where "model_output_shape ls' [h, w, c1] = Some [h, w, c']" ..
  with ls show ?case by simp
qed

lemma generator_layers_ok:
  assumes "image_size self = Some sz" and "3 \<le> length sz" and "gen_channels (config self) \<noteq> []"
  shows "\<exists>ls. generator_layers self = Inr ls"
proof -
  let ?chs = "gen_channels (config self)"
  let ?n = "length ?chs div 2"
  let ?block = "\<lambda>c. [Conv2DTranspose c (1, 1), BatchNormalization, LeakyReLU]"
  have s0: "subscript (image_size self) 0 = Inr (sz ! 0)"
    and s1: "subscript (image_size self) 1 = Inr (sz ! 1)"
    and s2: "subscript (image_size self) 2 = Inr (sz ! 2)"
    using assms(1,2) by (auto simp: subscript_def getitem_def)
  have c0: "getitem ?chs 0 = Inr (?chs ! 0)"
    using assms(3) by (auto simp: getitem_def)
  from conv_loop_ok [of 0 ?n ?chs ?block]
  obtain first where f: "conv_loop ?n ?chs 0 ?block = Inr (first, int ?n)" by auto
  have lt: "?n < length ?chs" using assms(3) by (simp add: div_less_dividend)
  have ci: "getitem ?chs (int ?n) = Inr (?chs ! ?n)"
    using lt getitem_in_range [of "int ?n" ?chs] by simp
  have "int ?n + int ?n \<le> int (length ?chs)" by linarith
  from conv_loop_ok [of "int ?n" ?n ?chs ?block, OF _ this]
  obtain second where g: "conv_loop ?n ?chs (int ?n) ?block = Inr (second, int ?n + int ?n)" by auto
  show ?thesis
    using s0 s1 s2 c0 f ci g by (simp add: generator_layers_def Let_def)
qed

lemma generator_layers_shape:
  assumes "generator_layers self = Inr ls" and "image_size self = Some sz"
  shows "model_output_shape ls [n] = Some [(sz ! 0 div 4) * 2 * 2, (sz ! 1 div 4) * 2 * 2, sz ! 2]"
proof -
  let ?chs = "gen_channels (config self)"
  let ?n = "length ?chs div 2"
  let ?block = "\<lambda>c. [Conv2DTranspose c (1, 1), BatchNormalization, LeakyReLU]"
  obtain h where h: "subscript (image_size self) 0 = Inr h"
    using assms(1) by (cases "subscript (image_size self) 0") (auto simp: generator_layers_def Let_def)
  obtain w where w: "subscript (image_size self) 1 = Inr w"
    using assms(1) h by (cases "subscript (image_size self) 1") (auto simp: generator_layers_def Let_def)
  obtain c0 where c0: "getitem ?chs 0 = Inr c0"
    using assms(1) h w by (cases "getitem ?chs 0") (auto simp: generator_layers_def Let_def)
  obtain first i where f: "conv_loop ?n ?chs 0 ?block = Inr (first, i)"
    using assms(1) h w c0
    by (cases "conv_loop ?n ?chs 0 ?block") (auto simp: generator_layers_def Let_def)
  obtain ci where ci: "getitem ?chs i = Inr ci"
    using assms(1) h w c0 f by (cases "getitem ?chs i") (auto simp: generator_layers_def Let_def)
  obtain second i' where g: "conv_loop ?n ?chs i ?block = Inr (second, i')"
    using assms(1) h w c0 f ci
    by (cases "conv_loop ?n ?chs i ?block") (auto simp: generator_layers_def Let_def)
  obtain ch where ch: "subscript (image_size self) 2 = Inr ch"
    using assms(1) h w c0 f ci g
    by (cases "subscript (image_size self) 2") (auto simp: generator_layers_def Let_def)
  have ls: "ls = [Dense ((h div 4) * (w div 4) * (c0 * 2)), BatchNormalization, LeakyReLU,
                 Reshape [h div 4, w div 4, c0 * 2]]
                @ first
                @ [Conv2DTranspose ci (2, 2), BatchNormalization, LeakyReLU]
                @ second
                @ [Conv2DTranspose ch (2, 2)]"
    using assms(1) h w c0 f ci g ch by (simp add: generator_layers_def Let_def)
  have idx: "h = sz ! 0" "w = sz ! 1" "ch = sz ! 2"
    using h w ch assms(2)
    by (auto simp: subscript_def getitem_def split: if_splits)
  from conv_loop_shape [OF f, of "h div 4" "w div 4" "c0 * 2"]
  obtain c1 where a: "model_output_shape first [h div 4, w div 4, c0 * 2] = Some [h div 4, w div 4, c1]" ..
  from conv_loop_shape [OF g, of "h div 4 * 2" "w div 4 * 2" ci]
  obtain c2 where b: "model_output_shape second [h div 4 * 2, w div 4 * 2, ci]
                        = Some [h div 4 * 2, w div 4 * 2, c2]" ..
  show ?thesis
    unfolding ls idx [symmetric]
    by (simp add: model_output_shape_append a b mult.assoc)
qed

lemma discriminator_layers_ok:
  assumes "disc_channels (config self) \<noteq> []"
  shows "\<exists>ls. discriminator_layers self = Inr ls"
proof -
  let ?chs = "disc_channels (config self)"
  have c0: "getitem ?chs 0 = Inr (?chs ! 0)"
    using assms by (auto simp: getitem_def)
  have "\<exists>bs. mapM (\<lambda>i. ebind (getitem ?chs (int i))
                  (\<lambda>c. Inr [Conv2D c (1, 1), LeakyReLU, Dropout (dropout_rate (config self))]))
                [0..<length ?chs] = Inr bs"
    by (rule mapM_total) (auto simp: getitem_in_range)
  then obtain bs where bs: "mapM (\<lambda>i. ebind (getitem ?chs (int i))
                  (\<lambda>c. Inr [Conv2D c (1, 1), LeakyReLU, Dropout (dropout_rate (config self))]))
                [0..<length ?chs] = Inr bs" ..
  show ?thesis
    using c0 bs getitem_last [OF assms] by (simp add: discriminator_layers_def Let_def)
qed

lemma load_model_ok:
  assumes "image_size self = Some sz" and "3 \<le> length sz"
    and "gen_channels (config self) \<noteq> []" and "disc_channels (config self) \<noteq> []"
    and "gen_path (config self) = None" and "disc_path (config self) = None"
  shows "\<exists>s1. load_model L self = Inr s1"
proof -
  from generator_layers_ok [OF assms(1-3)] obtain gl where gl: "generator_layers self = Inr gl" ..
  from discriminator_layers_ok [OF assms(4)] obtain dl where dl: "discriminator_layers self = Inr dl" ..
  show ?thesis
    using gl dl assms(5,6)
    by (simp add: load_model_def generator_def discriminator_def Sequential_def allocate_def Let_def)
qed

section \<open>Fresh variables and concrete runs of the DCGAN\<close>

lemma write_all_notin: "v \<notin> fst ` set vxs \<Longrightarrow> write_all vxs h v = h v"
  unfolding write_all_def
  by (induction vxs arbitrary: h) auto

lemma write_all_zip_notin: "v \<notin> set vs \<Longrightarrow> write_all (zip vs xs) h v = h v"
  by (rule write_all_notin) (auto dest: set_zip_leftD)

lemma write_all_Cons: "write_all ((v, x) # vxs) h = write_all vxs (h(v := x))"
  by (simp add: write_all_def)

lemma write_all_upt:
  "map (write_all (zip [a..<a + length ws] ws) h) [a..<a + length ws] = ws"
proof (induction ws arbitrary: a h)
  case Nil
  show ?case by simp
next
  case (Cons w ws)
  have u: "[a..<a + length (w # ws)] = a # [Suc a..<Suc a + length ws]"
    using upt_conv_Cons [of a "a + length (w # ws)"] by simp
  have "a \<notin> set [Suc a..<Suc a + length ws]"
    by (simp del: upt_Suc)
  from write_all_zip_notin [OF this, of ws "h(a := w)"]
  have hd: "write_all (zip [Suc a..<Suc a + length ws] ws) (h(a := w)) a = w"
    by (simp del: upt_Suc)
  show ?case
  proof -
    have tl: "map (write_all (zip [Suc a..<Suc a + length ws] ws) (h(a := w)))
                [Suc a..<Suc a + length ws] = ws"
      by (rule Cons.IH)
    show ?thesis
      unfolding u using hd tl by (simp add: write_all_Cons del: upt_Suc)
  qed
qed

lemma load_model_fresh_weights:
  assumes "load_model L self = Inr s'"
    and "gen_path (config self) = None" and "disc_path (config self) = None"
    and "gen_model s' = Some g" and "disc_model s' = Some d"
  shows "weights s' (trainable_variables g) = initializer L (layers g)
       \<and> weights s' (trainable_variables d) = initializer L (layers d)
       \<and> (\<forall>v<next_var self. heap s' v = heap self v)"
proof -
  obtain gl where gl: "generator_layers self = Inr gl"
    using assms(1) by (cases "generator_layers self") (auto simp: load_model_def generator_def)
  obtain dl where dl: "discriminator_layers self = Inr dl"
    using assms(1) gl
    by (cases "discriminator_layers self")
       (auto simp: load_model_def generator_def discriminator_def Sequential_def allocate_def Let_def)
  let ?n = "next_var self"
  let ?gw = "initializer L gl"
  let ?dw = "initializer L dl"
  let ?h1 = "write_all (zip [?n..<?n + length ?gw] ?gw) (heap self)"
  let ?h2 = "write_all (zip [?n + length ?gw..<?n + length ?gw + length ?dw] ?dw) ?h1"
  have s': "s' = self\<lparr>heap := ?h2, next_var := ?n + length ?gw + length ?dw,
                     gen_model := Some \<lparr>layers = gl, trainable_variables = [?n..<?n + length ?gw]\<rparr>,
                     disc_model := Some \<lparr>layers = dl, trainable_variables =
                                           [?n + length ?gw..<?n + length ?gw + length ?dw]\<rparr>\<rparr>"
    using assms(1-3) gl dl
    by (simp add: load_model_def generator_def discriminator_def Sequential_def allocate_def Let_def)
  have g: "g = \<lparr>layers = gl, trainable_variables = [?n..<?n + length ?gw]\<rparr>"
    and d: "d = \<lparr>layers = dl, trainable_variables = [?n + length ?gw..<?n + length ?gw + length ?dw]\<rparr>"
    using assms(4,5) s' by simp_all
  have a: "map ?h2 [?n..<?n + length ?gw] = ?gw"
  proof -
    have "map ?h2 [?n..<?n + length ?gw] = map ?h1 [?n..<?n + length ?gw]"
      by (rule map_cong) (simp_all add: write_all_zip_notin)
    then show ?thesis by (simp add: write_all_upt)
  qed
  have b: "map ?h2 [?n + length ?gw..<?n + length ?gw + length ?dw] = ?dw"
    by (rule write_all_upt)
  have c: "\<forall>v<?n. ?h2 v = heap self v"
    by (simp add: write_all_zip_notin)
  show ?thesis
    using a b c by (simp add: s' g d weights_def)
qed

lemma toy_load_model:
  "\<exists>s1 g d. load_model toy_library toy_dcgan = Inr s1 \<and> gen_model s1 = Some g \<and> disc_model s1 = Some d
     \<and> trainable_variables g = [0] \<and> trainable_variables d = [1]
     \<and> heap s1 0 = [0] \<and> heap s1 1 = [0] \<and> events s1 = [] \<and> rng s1 = 0 \<and> noise_dim s1 = 1
     \<and> next_var s1 = 2"
proof -
  have c: "image_size toy_dcgan = Some [28, 28, 1]" "gen_channels (config toy_dcgan) \<noteq> []"
    "disc_channels (config toy_dcgan) \<noteq> []" "gen_path (config toy_dcgan) = None"
    "disc_path (config toy_dcgan) = None" "next_var toy_dcgan = 0" "events toy_dcgan = []"
    "rng toy_dcgan = 0" "noise_dim toy_dcgan = 1"
    by (simp_all add: toy_dcgan_def load_data_def DCGAN_def toy_config_def toy_process_def)
  from load_model_ok [OF c(1) _ c(2-5), of toy_library]
  obtain s1 where s1: "load_model toy_library toy_dcgan = Inr s1" by auto
  from load_model_Inr [OF s1] obtain g d where
    gd: "gen_model s1 = Some g" "disc_model s1 = Some d"
      "trainable_variables g = [next_var toy_dcgan ..< next_var toy_dcgan + length (initializer toy_library (layers g))]"
      "trainable_variables d = [next_var toy_dcgan + length (initializer toy_library (layers g)) ..< next_var s1]"
      "next_var s1 = next_var toy_dcgan + length (initializer toy_library (layers g))
                        + length (initializer toy_library (layers d))"
      "events s1 = events toy_dcgan" "rng s1 = rng toy_dcgan" "noise_dim s1 = noise_dim toy_dcgan"
    by blast
  have i: "initializer toy_library ls = [[0]]" for ls by (simp add: toy_library_def)
  from load_model_fresh_weights [OF s1 c(4,5) gd(1,2)]
  have w: "weights s1 (trainable_variables g) = [[0]]" "weights s1 (trainable_variables d) = [[0]]"
    by (simp_all add: i)
  have tv: "trainable_variables g = [0]" "trainable_variables d = [1]" "next_var s1 = 2"
    using gd(3,4,5) by (simp_all add: c i)
  show ?thesis
    using s1 gd(1,2,6,7,8) tv w by (simp add: c weights_def)
qed

section \<open>Order and number of the updates\<close>



section \<open>What the two updates of a step write\<close>

text \<open>
  Claim C3. In a training step, the discriminator update takes gradients with respect to
  the discriminator's trainable variables and writes no other variable, so the generator's
  values are the same after it; the generator update that follows takes gradients with
  respect to the generator's variables and writes no other variable, so the discriminator
  keeps the values the first update gave it. The two networks share no variable, as
  \<^verbatim>\<open>__load_model\<close> builds them (\<open>load_model_disjoint\<close>).
\<close>

theorem training_step_frames:
  assumes "gen_model self = Some g" and "disc_model self = Some d"
    and "set (trainable_variables g) \<inter> set (trainable_variables d) = {}"
  shows "\<exists>D_loss dopt' s1 G_loss gopt' s2.
           phase_D L data dopt self = Inr (D_loss, dopt', s1)
         \<and> (\<forall>v. v \<notin> set (trainable_variables d) \<longrightarrow> heap s1 v = heap self v)
         \<and> weights s1 (trainable_variables g) = weights self (trainable_variables g)
         \<and> gen_model s1 = Some g \<and> disc_model s1 = Some d
         \<and> events s1 = events self @ [TapeGradient (trainable_variables d),
                                       ApplyGradients DiscOptimizer (trainable_variables d)]
         \<and> phase_G L data gopt s1 = Inr (G_loss, gopt', s2)
         \<and> (\<forall>v. v \<notin> set (trainable_variables g) \<longrightarrow> heap s2 v = heap s1 v)
         \<and> weights s2 (trainable_variables d) = weights s1 (trainable_variables d)
         \<and> gen_model s2 = Some g \<and> disc_model s2 = Some d
         \<and> events s2 = events s1 @ [TapeGradient (trainable_variables g),
                                     ApplyGradients GenOptimizer (trainable_variables g)]"
proof -
  from phase_D_result [OF assms(1,2), of L data dopt]
  obtain D_loss dopt' h1 where
    D: "phase_D L data dopt self =
          Inr (D_loss, dopt',
               self\<lparr>heap := h1, rng := rng self + length data * noise_dim self,
                    events := events self @ [TapeGradient (trainable_variables d),
                                             ApplyGradients DiscOptimizer (trainable_variables d)]\<rparr>)"
    and f1: "\<forall>v. v \<notin> set (trainable_variables d) \<longrightarrow> h1 v = heap self v"
    by blast
  let ?s1 = "self\<lparr>heap := h1, rng := rng self + length data * noise_dim self,
                    events := events self @ [TapeGradient (trainable_variables d),
                                             ApplyGradients DiscOptimizer (trainable_variables d)]\<rparr>"
  have g1: "gen_model ?s1 = Some g" and d1: "disc_model ?s1 = Some d"
    using assms by simp_all
  from phase_G_result [OF g1 d1, of L data gopt]
  obtain G_loss gopt' h2 where
    G: "phase_G L data gopt ?s1 =
          Inr (G_loss, gopt',
               ?s1\<lparr>heap := h2, rng := rng ?s1 + length data * noise_dim ?s1,
                    events := events ?s1 @ [TapeGradient (trainable_variables g),
                                            ApplyGradients GenOptimizer (trainable_variables g)]\<rparr>)"
    and f2: "\<forall>v. v \<notin> set (trainable_variables g) \<longrightarrow> h2 v = heap ?s1 v"
    by blast
  have w1: "weights ?s1 (trainable_variables g) = weights self (trainable_variables g)"
    using f1 assms(3) by (auto simp: weights_def)
  let ?s2 = "?s1\<lparr>heap := h2, rng := rng ?s1 + length data * noise_dim ?s1,
                    events := events ?s1 @ [TapeGradient (trainable_variables g),
                                            ApplyGradients GenOptimizer (trainable_variables g)]\<rparr>"
  have w2: "weights ?s2 (trainable_variables d) = weights ?s1 (trainable_variables d)"
    using f2 assms(3) by (auto simp: weights_def)
  show ?thesis
    apply (rule exI [of _ D_loss], rule exI [of _ dopt'], rule exI [of _ ?s1])
    apply (rule exI [of _ G_loss], rule exI [of _ gopt'], rule exI [of _ ?s2])
    using D G f1 f2 w1 w2 assms(1,2) by simp
qed

theorem training_step_frames_witness:
  "\<exists>s0 g d D_loss dopt' s1 G_loss gopt' s2.
       load_model toy_library toy_dcgan = Inr s0
     \<and> gen_model s0 = Some g \<and> disc_model s0 = Some d
     \<and> trainable_variables g = [0] \<and> trainable_variables d = [1]
     \<and> weights s0 [0] = [[0]] \<and> weights s0 [1] = [[0]]
     \<and> phase_D toy_library [[0]] () s0 = Inr (D_loss, dopt', s1)
     \<and> weights s1 [0] = [[0]] \<and> weights s1 [1] = [[- 1]]
     \<and> phase_G toy_library [[0]] () s1 = Inr (G_loss, gopt', s2)
     \<and> weights s2 [0] = [[- 1]] \<and> weights s2 [1] = [[- 1]]"
proof -
  from toy_load_model obtain s0 g d where
    s0: "load_model toy_library toy_dcgan = Inr s0"
    and gd: "gen_model s0 = Some g" "disc_model s0 = Some d"
    and tv: "trainable_variables g = [0]" "trainable_variables d = [1]"
    and h0: "heap s0 0 = [0]" "heap s0 1 = [0]"
    by blast
  have dj: "set (trainable_variables g) \<inter> set (trainable_variables d) = {}"
    using tv by simp
  from training_step_frames [OF gd dj, of toy_library "[[0]]" "()" "()"]
  obtain D_loss dopt' s1 G_loss gopt' s2 where
    D: "phase_D toy_library [[0]] () s0 = Inr (D_loss, dopt', s1)"
    and G: "phase_G toy_library [[0]] () s1 = Inr (G_loss, gopt', s2)"
    and fr: "weights s1 (trainable_variables g) = weights s0 (trainable_variables g)"
       "weights s2 (trainable_variables d) = weights s1 (trainable_variables d)"
    and gd1: "gen_model s1 = Some g" "disc_model s1 = Some d"
    by blast
  have w1: "weights s1 [1] = [[- 1]]"
    using D gd tv h0
    by (auto simp: phase_D_def Let_def weights_def toy_library_def split: prod.splits)
  have w2: "weights s2 [0] = [[- 1]]"
    using G gd1 tv fr(1) h0
    by (auto simp: phase_G_def Let_def weights_def toy_library_def split: prod.splits)
  show ?thesis
    using s0 gd tv h0 D G fr w1 w2 by (auto simp: weights_def)
qed

section \<open>The training loop of the VAE\<close>

lemma vae_train_step_result:
  assumes "model self = Some m"
  shows "\<exists>h l'.
           vae_train_step L data (self, l) =
             Inr (self\<lparr>heap := h, rng := rng self + length data * latent_dim (vae_config self),
                      events := events self @ [TapeGradient (vae_variables m),
                                               ApplyGradients VaeOptimizer (vae_variables m)]\<rparr>, l')
         \<and> (\<forall>v. v \<notin> set (vae_variables m) \<longrightarrow> h v = heap self v)
         \<and> vae_steps l' = vae_steps l + 1
         \<and> m_count (train_loss l') = m_count (train_loss l) + 1
         \<and> m_total (train_loss l') = m_total (train_loss l)
              + mse_loss L data (vae_call L m (rng self) (latent_dim (vae_config self))
                                  (weights self (vae_variables m)) data)"
proof -
  let ?zdim = "latent_dim (vae_config self)"
  let ?s1 = "self\<lparr>rng := rng self + length data * ?zdim\<rparr>"
  let ?loss = "vae_step_loss L m (rng self) ?zdim data"
  let ?gs = "gradient L ?loss (weights ?s1 (vae_variables m))"
  obtain opt' h where ag:
    "apply_gradients L (vae_opt l) (zip ?gs (vae_variables m)) (heap self) = (opt', h)"
    by (cases "apply_gradients L (vae_opt l) (zip ?gs (vae_variables m)) (heap self)")
  have fr: "\<forall>v. v \<notin> set (vae_variables m) \<longrightarrow> h v = heap self v"
    using apply_gradients_zip_frame [of _ "vae_variables m" L "vae_opt l" ?gs "heap self"] ag
    by simp
  have w: "weights ?s1 (vae_variables m) = weights self (vae_variables m)"
    by (simp add: weights_def)
  show ?thesis
    using assms ag fr
    apply (simp add: vae_train_step_def Let_def w update_state_def vae_step_loss_def)
    apply (rule exI [of _ h])
    apply simp
    done
qed

lemma vae_train_batches_result:
  assumes "model self = Some m"
  shows "\<exists>h r l'.
           vae_train_batches L batches (self, l) =
             Inr (self\<lparr>heap := h, rng := r,
                      events := events self @ concat (replicate (length batches)
                        [TapeGradient (vae_variables m), ApplyGradients VaeOptimizer (vae_variables m)])\<rparr>, l')
         \<and> vae_steps l' = vae_steps l + length batches
         \<and> m_count (train_loss l') = m_count (train_loss l) + length batches"
  using assms
proof (induction batches arbitrary: self l)
  case Nil
  show ?case
    apply simp
    apply (rule exI [of _ "heap self"], rule exI [of _ "rng self"])
    apply simp
    done
next
  case (Cons data rest)
  from vae_train_step_result [OF Cons.prems, of L data l]
  obtain h l1 where
    st: "vae_train_step L data (self, l) =
           Inr (self\<lparr>heap := h, rng := rng self + length data * latent_dim (vae_config self),
                      events := events self @ [TapeGradient (vae_variables m),
                                               ApplyGradients VaeOptimizer (vae_variables m)]\<rparr>, l1)"
    and c1: "vae_steps l1 = vae_steps l + 1" "m_count (train_loss l1) = m_count (train_loss l) + 1"
    by blast
  let ?s1 = "self\<lparr>heap := h, rng := rng self + length data * latent_dim (vae_config self),
                      events := events self @ [TapeGradient (vae_variables m),
                                               ApplyGradients VaeOptimizer (vae_variables m)]\<rparr>"
  have m1: "model ?s1 = Some m" using Cons.prems by simp
  from Cons.IH [OF m1, of l1]
  obtain h' r' l2 where
    rest: "vae_train_batches L rest (?s1, l1) =
             Inr (?s1\<lparr>heap := h', rng := r',
                      events := events ?s1 @ concat (replicate (length rest)
                        [TapeGradient (vae_variables m), ApplyGradients VaeOptimizer (vae_variables m)])\<rparr>, l2)"
    and c2: "vae_steps l2 = vae_steps l1 + length rest"
       "m_count (train_loss l2) = m_count (train_loss l1) + length rest"
    by blast
  show ?case
    using st rest c1 c2 by simp blast
qed

lemma vae_train_epoch_result:
  assumes "model self = Some m"
  shows "\<exists>s' l'. vae_train_epoch L verb ds epoch (self, l) = Inr (s', l')
         \<and> model s' = Some m
         \<and> vae_steps l' = vae_steps l + length (ds epoch)
         \<and> m_count (train_loss l') = length (ds epoch)"
proof -
  let ?lmean = "l\<lparr>train_loss := reset_states (train_loss l)\<rparr>"
  from vae_train_batches_result [OF assms, of L "ds epoch" ?lmean]
  obtain h r l' where
    tb: "vae_train_batches L (ds epoch) (self, ?lmean) =
           Inr (self\<lparr>heap := h, rng := r,
                      events := events self @ concat (replicate (length (ds epoch))
                        [TapeGradient (vae_variables m), ApplyGradients VaeOptimizer (vae_variables m)])\<rparr>, l')"
    and c: "vae_steps l' = vae_steps ?lmean + length (ds epoch)"
       "m_count (train_loss l') = m_count (train_loss ?lmean) + length (ds epoch)"
    by blast
  show ?thesis
    using tb c assms by (simp add: vae_train_epoch_def reset_states_def)
qed

lemma train_epoch_result_count:
  assumes "gen_model self = Some g" and "disc_model self = Some d"
  shows "\<exists>s' l'. train_epoch L verb ds epoch (self, l) = Inr (s', l')
         \<and> m_count (generator_loss l') = length (ds epoch)
         \<and> m_count (discriminator_loss l') = length (ds epoch)"
  using train_epoch_result [OF assms, of L verb ds epoch l] by blast

lemma vae_ok:
  assumes "vae_image_size self = Some sz" and "3 \<le> length sz"
    and "enc_units cfg \<noteq> []" and "dec_units cfg \<noteq> []"
  shows "\<exists>m s1. vae L self cfg = Inr (m, s1)
       \<and> losses m = [\<lambda>z_mean z_var. kl_loss (concat z_mean) (concat z_var)]
       \<and> vae_variables m = [next_var self ..< next_var s1]
       \<and> next_var s1 = next_var self + length (initializer L (encoder_net m @ decoder_net m))
       \<and> (\<exists>h. s1 = self\<lparr>heap := h, next_var := next_var s1\<rparr>)"
proof -
  have s0: "subscript (vae_image_size self) 0 = Inr (sz ! 0)"
    and s1: "subscript (vae_image_size self) 1 = Inr (sz ! 1)"
    and s2: "subscript (vae_image_size self) 2 = Inr (sz ! 2)"
    using assms(1,2) by (auto simp: subscript_def getitem_def)
  have e0: "getitem (enc_units cfg) 0 = Inr (enc_units cfg ! 0)"
    using assms(3) by (auto simp: getitem_def)
  have d0: "getitem (dec_units cfg) 0 = Inr (dec_units cfg ! 0)"
    using assms(4) by (auto simp: getitem_def)
  have "\<exists>ys. mapM (\<lambda>i. ebind (getitem (enc_units cfg) (int i)) (\<lambda>u. Inr (Dense u)))
                [0..<length (enc_units cfg)] = Inr ys"
    by (rule mapM_total) (auto simp: getitem_in_range)
  then obtain es where es: "mapM (\<lambda>i. ebind (getitem (enc_units cfg) (int i)) (\<lambda>u. Inr (Dense u)))
                [0..<length (enc_units cfg)] = Inr es" ..
  have "\<exists>ys. mapM (\<lambda>i. ebind (getitem (dec_units cfg) (int i)) (\<lambda>u. Inr (Dense u)))
                [0..<length (dec_units cfg)] = Inr ys"
    by (rule mapM_total) (auto simp: getitem_in_range)
  then obtain ds where ds: "mapM (\<lambda>i. ebind (getitem (dec_units cfg) (int i)) (\<lambda>u. Inr (Dense u)))
                [0..<length (dec_units cfg)] = Inr ds" ..
  show ?thesis
    using s0 s1 s2 e0 d0 es ds
    apply (simp add: vae_def Let_def allocate_def)
    apply (rule exI)
    apply (rule refl)
    done
qed

lemma toy_vae_load_model:
  "\<exists>s m. vae_load_model toy_library toy_vae = Inr s \<and> model s = Some m
       \<and> losses m = [\<lambda>z_mean z_var. kl_loss (concat z_mean) (concat z_var)]
       \<and> vae_variables m = [0] \<and> rng s = 0 \<and> events s = [] \<and> stdout s = []
       \<and> vae_config s = toy_vae_config"
proof -
  have c: "vae_image_size toy_vae = Some [28, 28, 1]" "enc_units toy_vae_config \<noteq> []"
    "dec_units toy_vae_config \<noteq> []" "vae_config toy_vae = toy_vae_config" "next_var toy_vae = 0"
    "rng toy_vae = 0" "events toy_vae = []" "stdout toy_vae = []"
    by (simp_all add: toy_vae_def VAE_def toy_vae_config_def toy_process_def)
  from vae_ok [OF c(1) _ c(2,3), of toy_library]
  obtain m s1 h where m: "vae toy_library toy_vae toy_vae_config = Inr (m, s1)"
    and l: "losses m = [\<lambda>z_mean z_var. kl_loss (concat z_mean) (concat z_var)]"
    and v: "vae_variables m = [next_var toy_vae ..< next_var s1]"
    and n: "next_var s1 = next_var toy_vae
              + length (initializer toy_library (encoder_net m @ decoder_net m))"
    and s1: "s1 = toy_vae\<lparr>heap := h, next_var := next_var s1\<rparr>"
    by auto
  have n1: "next_var s1 = 1"
    using n by (simp add: c toy_library_def)
  have "vae_load_model toy_library toy_vae = Inr (s1\<lparr>model := Some m\<rparr>)"
    using m by (simp add: vae_load_model_def c)
  moreover have "rng s1 = 0" "events s1 = []" "stdout s1 = []" "vae_config s1 = toy_vae_config"
    by (subst s1, simp add: c)+
  ultimately show ?thesis
    using l v n1 by (simp add: c)
qed


section \<open>The running means are reset in every epoch\<close>

text \<open>
  Claim C10. Every epoch of \<^verbatim>\<open>fit\<close> starts by resetting its running means (two in the
  DCGAN, one in the VAE): after the reset an accumulator has count 0 and mean 0, the
  epoch's result is the same whatever the accumulators held before (it is the result
  from fresh accumulators), and after the epoch each accumulator has counted exactly the
  steps of this epoch. So no value of an earlier epoch enters the mean that is reported.
\<close>

theorem accumulators_reset_each_epoch:
  assumes "gen_model self = Some g" and "disc_model self = Some d" and "model vself = Some m"
  shows "result (reset_states a) = 0 \<and> m_count (reset_states a) = 0
       \<and> train_epoch L verb ds epoch (self, l\<lparr>generator_loss := a, discriminator_loss := b\<rparr>)
         = train_epoch L verb ds epoch (self, l\<lparr>generator_loss := Mean, discriminator_loss := Mean\<rparr>)
       \<and> (\<exists>s' l'. train_epoch L verb ds epoch (self, l) = Inr (s', l')
             \<and> m_count (generator_loss l') = length (ds epoch)
             \<and> m_count (discriminator_loss l') = length (ds epoch))
       \<and> vae_train_epoch L verb ds epoch (vself, vl\<lparr>train_loss := a\<rparr>)
         = vae_train_epoch L verb ds epoch (vself, vl\<lparr>train_loss := Mean\<rparr>)
       \<and> (\<exists>s' l'. vae_train_epoch L verb ds epoch (vself, vl) = Inr (s', l')
             \<and> m_count (train_loss l') = length (ds epoch))"
proof -
  have 1: "result (reset_states a) = 0 \<and> m_count (reset_states a) = 0"
    by (simp add: result_def reset_states_def)
  have 2: "train_epoch L verb ds epoch (self, l\<lparr>generator_loss := a, discriminator_loss := b\<rparr>)
         = train_epoch L verb ds epoch (self, l\<lparr>generator_loss := Mean, discriminator_loss := Mean\<rparr>)"
    by (simp add: train_epoch_def reset_states_eq)
  have 3: "vae_train_epoch L verb ds epoch (vself, vl\<lparr>train_loss := a\<rparr>)
         = vae_train_epoch L verb ds epoch (vself, vl\<lparr>train_loss := Mean\<rparr>)"
    by (simp add: vae_train_epoch_def reset_states_eq)
  from train_epoch_result_count [OF assms(1,2), of L verb ds epoch l]
    vae_train_epoch_result [OF assms(3), of L verb ds epoch vl] 1 2 3
  show ?thesis by blast
qed

theorem accumulators_reset_each_epoch_witness:
  "\<exists>s0 vs s' l' vs' vl'.
      load_model toy_library toy_dcgan = Inr s0
    \<and> vae_load_model toy_library toy_vae = Inr vs
    \<and> train_epoch toy_library 1 toy_dataset 0
          (s0, \<lparr>gen_opt = (), disc_opt = (), steps = 14,
                generator_loss = \<lparr>m_total = 100, m_count = 7\<rparr>,
                discriminator_loss = \<lparr>m_total = 50, m_count = 7\<rparr>\<rparr>) = Inr (s', l')
    \<and> train_epoch toy_library 1 toy_dataset 0
          (s0, \<lparr>gen_opt = (), disc_opt = (), steps = 14,
                generator_loss = Mean, discriminator_loss = Mean\<rparr>) = Inr (s', l')
    \<and> m_count (generator_loss l') = 2 \<and> m_count (discriminator_loss l') = 2
    \<and> vae_train_epoch toy_library 1 toy_dataset 0
          (vs, \<lparr>vae_opt = (), vae_steps = 14, train_loss = \<lparr>m_total = 100, m_count = 7\<rparr>\<rparr>)
        = Inr (vs', vl')
    \<and> vae_train_epoch toy_library 1 toy_dataset 0
          (vs, \<lparr>vae_opt = (), vae_steps = 14, train_loss = Mean\<rparr>) = Inr (vs', vl')
    \<and> m_count (train_loss vl') = 2"
proof -
  from toy_load_model obtain s0 g d where
    s0: "load_model toy_library toy_dcgan = Inr s0"
    and gd: "gen_model s0 = Some g" "disc_model s0 = Some d"
    by blast
  from toy_vae_load_model obtain vs m where
    vs: "vae_load_model toy_library toy_vae = Inr vs" and m: "model vs = Some m"
    by blast
  let ?l = "\<lparr>gen_opt = (), disc_opt = (), steps = 14,
                generator_loss = \<lparr>m_total = 100, m_count = 7\<rparr>,
                discriminator_loss = \<lparr>m_total = 50, m_count = 7\<rparr>\<rparr>"
  let ?vl = "\<lparr>vae_opt = (), vae_steps = 14, train_loss = \<lparr>m_total = 100, m_count = 7\<rparr>\<rparr>"
  let ?lmean = "\<lparr>gen_opt = (), disc_opt = (), steps = 14,
                generator_loss = Mean, discriminator_loss = Mean\<rparr>"
  let ?vmean = "\<lparr>vae_opt = (), vae_steps = 14, train_loss = Mean\<rparr>"
  note T = accumulators_reset_each_epoch [OF gd m, where a = "\<lparr>m_total = 100, m_count = 7\<rparr>"
      and L = toy_library and verb = 1 and ds = toy_dataset and epoch = 0 and l = ?l
      and b = "\<lparr>m_total = 50, m_count = 7\<rparr>" and vl = ?vl]
  have c1: "train_epoch toy_library 1 toy_dataset 0 (s0, ?l)
            = train_epoch toy_library 1 toy_dataset 0 (s0, ?lmean)"
    using T by simp
  have c2: "vae_train_epoch toy_library 1 toy_dataset 0 (vs, ?vl)
            = vae_train_epoch toy_library 1 toy_dataset 0 (vs, ?vmean)"
    using T by simp
  from T obtain s' l' where
    a: "train_epoch toy_library 1 toy_dataset 0 (s0, ?l) = Inr (s', l')"
       "m_count (generator_loss l') = length (toy_dataset 0)"
       "m_count (discriminator_loss l') = length (toy_dataset 0)"
    by blast
  from T obtain vs' vl' where
    b: "vae_train_epoch toy_library 1 toy_dataset 0 (vs, ?vl) = Inr (vs', vl')"
       "m_count (train_loss vl') = length (toy_dataset 0)"
    by blast
  have a0: "train_epoch toy_library 1 toy_dataset 0 (s0, ?lmean) = Inr (s', l')"
    using a(1) c1 by simp
  have b0: "vae_train_epoch toy_library 1 toy_dataset 0 (vs, ?vmean) = Inr (vs', vl')"
    using b(1) c2 by simp
  have len: "length (toy_dataset 0) = 2" by (simp add: toy_dataset_def)
  have n: "m_count (generator_loss l') = 2" "m_count (discriminator_loss l') = 2"
    "m_count (train_loss vl') = 2"
    using a(2,3) b(2) len by simp_all
  show ?thesis
    using s0 vs a(1) a0 b(1) b0 n by blast
qed

section \<open>The loss of a VAE step, and the checkpoints\<close>

lemma vae_step_loss_is_reconstruction_loss:
  "vae_step_loss L m pos zdim data w = mse_loss L data (vae_call L m pos zdim w data)"
  by (simp add: vae_step_loss_def)

lemma vae_call_ignores_losses:
  "vae_call L (m\<lparr>losses := ls\<rparr>) pos zdim w data = vae_call L m pos zdim w data"
  by (simp add: vae_call_def)

lemma toy_kl: "kl_loss (concat [fst (encode toy_library ls w x)]) (concat [snd (encode toy_library ls w x)])
     = Some (1 / 2)"
  by (simp add: toy_library_def kl_loss_def reduce_mean_def t_add_scalar_def t_sub_def
      t_square_def t_exp_def)

text \<open>
  Claim C2. The claim says that the loss a VAE step differentiates is the reconstruction
  loss plus the KL term. In \<^verbatim>\<open>fit\<close> the tape records \<^verbatim>\<open>loss = mse_loss(data, data_recon)\<close>
  only; the KL term was handed to \<^verbatim>\<open>model.add_loss\<close> in \<^verbatim>\<open>vae\<close>, and \<^verbatim>\<open>fit\<close> never reads
  \<^verbatim>\<open>model.losses\<close>. On the small instance the reconstruction loss of the step is 3 and the
  KL term of the batch is 1/2: the loss that is differentiated, recorded and printed is 3.
\<close>

theorem vae_fit_leaves_out_kl_term:
  "\<exists>s m. vae_fit toy_library toy_vae toy_vae_fit_args = Inr s \<and> model s = Some m
     \<and> stdout s = [EpochLoss 1 3]
     \<and> mse_loss toy_library [[0]]
          (vae_call toy_library m 0 1 (weights s (vae_variables m)) [[0]]) = 3
     \<and> map (\<lambda>f. f (map fst (map (encode toy_library (encoder_net m)
                                          (weights s (vae_variables m))) [[0]]))
                            (map snd (map (encode toy_library (encoder_net m)
                                          (weights s (vae_variables m))) [[0]])))
           (losses m) = [Some (1 / 2)]"
proof -
  from toy_vae_load_model obtain vs m where
    vs: "vae_load_model toy_library toy_vae = Inr vs" and m: "model vs = Some m"
    and l: "losses m = [\<lambda>z_mean z_var. kl_loss (concat z_mean) (concat z_var)]"
    and c: "rng vs = 0" "events vs = []" "stdout vs = []" "vae_config vs = toy_vae_config"
    by blast
  let ?l0 = "\<lparr>vae_opt = (), vae_steps = 0, train_loss = reset_states Mean\<rparr>"
  from vae_train_step_result [OF m, of toy_library "[[0]]" ?l0]
  obtain h l' where
    st: "vae_train_step toy_library [[0]] (vs, ?l0) =
           Inr (vs\<lparr>heap := h, rng := rng vs + length [[0::real]] * latent_dim (vae_config vs),
                      events := events vs @ [TapeGradient (vae_variables m),
                                               ApplyGradients VaeOptimizer (vae_variables m)]\<rparr>, l')"
    and cnt: "m_count (train_loss l') = m_count (train_loss ?l0) + 1"
    and tot: "m_total (train_loss l') = m_total (train_loss ?l0)
              + mse_loss toy_library [[0]] (vae_call toy_library m (rng vs) (latent_dim (vae_config vs))
                                  (weights vs (vae_variables m)) [[0]])"
    by blast
  have r: "result (train_loss l') = 3"
    using cnt tot by (simp add: result_def reset_states_def Mean_def toy_library_def)
  let ?s1 = "vs\<lparr>heap := h, rng := rng vs + length [[0::real]] * latent_dim (vae_config vs),
                      events := events vs @ [TapeGradient (vae_variables m),
                                               ApplyGradients VaeOptimizer (vae_variables m)]\<rparr>"
  have ep: "vae_train_epoch toy_library 1 (\<lambda>k. [[[0]]]) 0
              (vs, \<lparr>vae_opt = (), vae_steps = 0, train_loss = Mean\<rparr>)
            = Inr (?s1\<lparr>stdout := [EpochLoss 1 3]\<rparr>, l')"
    using st r c by (simp add: vae_train_epoch_def)
  have opt: "make_optimizer toy_library ''Adam'' kw = Inr ()" for kw
    by (simp add: make_optimizer_def toy_library_def)
  have fit: "vae_fit toy_library toy_vae toy_vae_fit_args = Inr (?s1\<lparr>stdout := [EpochLoss 1 3]\<rparr>)"
    using vs ep opt by (simp add: vae_fit_def toy_vae_fit_args_def vae_save_checkpoint_def)
  show ?thesis
    apply (rule exI [of _ "?s1\<lparr>stdout := [EpochLoss 1 3]\<rparr>"], rule exI [of _ m])
    using fit m l toy_kl by (simp add: toy_library_def)
qed

lemma vae_save_checkpoint_empty:
  "vae_save_checkpoint (Dir []) self = Inl (IndexError ''index out of range'')"
  by (simp add: vae_save_checkpoint_def getitem_def)

lemma vae_save_checkpoint_Dir:
  assumes "model self = Some m" and "path \<noteq> []"
  shows "vae_save_checkpoint (Dir path) self =
     Inr (self\<lparr>checkpoints := (checkpoints self)
       ((if last path = CHR ''/'' then path else path @ ''/'') @ ''variational_autoencoder_checkpoint''
           \<mapsto> weights self (vae_variables m))\<rparr>)"
  using assms by (simp add: vae_save_checkpoint_def getitem_last save_weights_def)

lemma vae_train_epochs_result:
  assumes "model self = Some m"
  shows "\<exists>s' l'. vae_train_epochs L verb ds es (self, l) = Inr (s', l') \<and> model s' = Some m"
  using assms
proof (induction es arbitrary: self l)
  case Nil
  then show ?case by simp
next
  case (Cons e es)
  from vae_train_epoch_result [OF Cons.prems, of L verb ds e l]
  obtain s1 l1 where ep: "vae_train_epoch L verb ds e (self, l) = Inr (s1, l1)"
    and m1: "model s1 = Some m" by blast
  from Cons.IH [OF m1, of l1] ep show ?case by simp
qed

lemma train_epochs_total:
  assumes "gen_model self = Some g" and "disc_model self = Some d"
  shows "\<exists>h r ev out l'.
           train_epochs L verb ds es (self, l) =
             Inr (self\<lparr>heap := h, rng := r, events := ev, stdout := out\<rparr>, l')"
  using assms
proof (induction es arbitrary: self l)
  case Nil
  show ?case
    apply simp
    apply (rule exI [of _ "heap self"], rule exI [of _ "rng self"])
    apply (rule exI [of _ "events self"], rule exI [of _ "stdout self"])
    apply simp
    done
next
  case (Cons e es)
  from train_epoch_result [OF Cons.prems, of L verb ds e l]
  obtain h r out l1 where
    ep: "train_epoch L verb ds e (self, l) =
           Inr (self\<lparr>heap := h, rng := r,
                    events := events self @ concat (replicate (length (ds e)) (step_events g d)),
                    stdout := out\<rparr>, l1)"
    by blast
  let ?s1 = "self\<lparr>heap := h, rng := r,
                    events := events self @ concat (replicate (length (ds e)) (step_events g d)),
                    stdout := out\<rparr>"
  have g1: "gen_model ?s1 = Some g" and d1: "disc_model ?s1 = Some d"
    using Cons.prems by simp_all
  from Cons.IH [OF g1 d1, of l1]
  obtain h' r' ev' out' l2 where
    more: "train_epochs L verb ds es (?s1, l1) =
             Inr (?s1\<lparr>heap := h', rng := r', events := ev', stdout := out'\<rparr>, l2)"
    by blast
  show ?case
    using ep more
    apply simp
    apply (rule exI [of _ h'], rule exI [of _ r'], rule exI [of _ ev'], rule exI [of _ out'])
    apply simp
    done
qed

lemma checkpoint_names_differ:
  "p @ ''generator_checkpoint'' \<noteq> p @ ''discriminator_checkpoint''"
  by simp

lemma fit_saves_checkpoints:
  assumes "train_ds args = Some ds"
    and "load_model L self = Inr s1"
    and "optimizers L (gen_optimizer args) = Some gc"
    and "optimizers L (disc_optimizer args) = Some dc"
    and "save_model args = Dir path" and "path \<noteq> []"
  shows "\<exists>s' g d. fit L self args = Inr s' \<and> gen_model s' = Some g \<and> disc_model s' = Some d
       \<and> checkpoints s' = (checkpoints self)
           ((if last path = CHR ''/'' then path else path @ ''/'') @ ''generator_checkpoint''
               \<mapsto> weights s' (trainable_variables g),
            (if last path = CHR ''/'' then path else path @ ''/'') @ ''discriminator_checkpoint''
               \<mapsto> weights s' (trainable_variables d))"
proof -
  from load_model_Inr [OF assms(2)] obtain g d where
    g: "gen_model s1 = Some g" and d: "disc_model s1 = Some d"
    and ck: "checkpoints s1 = checkpoints self"
    by blast
  let ?l0 = "\<lparr>gen_opt = gc (optimizer_kwargs (gen_optimizer args) (gen_learning_rate args) (beta_1 args)),
              disc_opt = dc (optimizer_kwargs (disc_optimizer args) (disc_learning_rate args) (beta_1 args)),
              steps = 0, generator_loss = Mean, discriminator_loss = Mean\<rparr>"
  from train_epochs_total [OF g d, of L "verbose args" ds "[0..<nat (epochs args)]" ?l0]
  obtain h r ev out l' where
    tr: "train_epochs L (verbose args) ds [0..<nat (epochs args)] (s1, ?l0)
           = Inr (s1\<lparr>heap := h, rng := r, events := ev, stdout := out\<rparr>, l')"
    by blast
  let ?s2 = "s1\<lparr>heap := h, rng := r, events := ev, stdout := out\<rparr>"
  have g2: "gen_model ?s2 = Some g" and d2: "disc_model ?s2 = Some d"
    using g d by simp_all
  note sv = save_checkpoints_Dir [OF g2 d2 assms(6)]
  have "fit L self args = Inr (?s2\<lparr>checkpoints := (checkpoints ?s2)
       ((if last path = CHR ''/'' then path else path @ ''/'') @ ''generator_checkpoint''
           \<mapsto> weights ?s2 (trainable_variables g),
        (if last path = CHR ''/'' then path else path @ ''/'') @ ''discriminator_checkpoint''
           \<mapsto> weights ?s2 (trainable_variables d))\<rparr>)"
    using assms(1,2,5) make_optimizer_Some [OF assms(3)] make_optimizer_Some [OF assms(4)] tr sv
    by (simp add: fit_def)
  then show ?thesis
    using g d ck by (simp add: weights_def)
qed

text \<open>
  Claim C8. For a non-empty directory string \<^verbatim>\<open>fit\<close> writes the checkpoints under the
  directory, adding the separator when the string does not end with one
  (\<open>fit_saves_checkpoints\<close>, \<open>vae_save_checkpoint_Dir\<close>). The empty string is a string
  too, and for it \<^verbatim>\<open>save_model[-1]\<close> raises IndexError after the training loop has run:
  nothing is persisted, in the DCGAN and in the VAE.
\<close>

theorem fit_empty_checkpoint_directory:
  "fit toy_library toy_dcgan (toy_fit_args\<lparr>save_model := Dir ''''\<rparr>)
     = Inl (IndexError ''index out of range'')
   \<and> vae_fit toy_library toy_vae (toy_vae_fit_args\<lparr>save_model := Dir ''''\<rparr>)
     = Inl (IndexError ''index out of range'')"
proof -
  from toy_load_model obtain s1 g d where
    s1: "load_model toy_library toy_dcgan = Inr s1"
    and gd: "gen_model s1 = Some g" "disc_model s1 = Some d"
    by blast
  from train_epochs_total [OF gd, of toy_library 1 toy_dataset "[0..<nat 2]"
      "\<lparr>gen_opt = (), disc_opt = (), steps = 0, generator_loss = Mean, discriminator_loss = Mean\<rparr>"]
  obtain s2 l2 where
    tr: "train_epochs toy_library 1 toy_dataset [0..<nat 2]
           (s1, \<lparr>gen_opt = (), disc_opt = (), steps = 0, generator_loss = Mean,
                  discriminator_loss = Mean\<rparr>) = Inr (s2, l2)"
    by blast
  have opt: "make_optimizer toy_library ''Adam'' kw = Inr ()" for kw
    by (simp add: make_optimizer_def toy_library_def)
  have a: "fit toy_library toy_dcgan (toy_fit_args\<lparr>save_model := Dir ''''\<rparr>)
             = Inl (IndexError ''index out of range'')"
    using s1 tr opt by (simp add: fit_def toy_fit_args_def save_checkpoints_empty)
  from toy_vae_load_model obtain vs m where
    vs: "vae_load_model toy_library toy_vae = Inr vs" and m: "model vs = Some m"
    by blast
  from vae_train_epochs_result [OF m, of toy_library 1 "\<lambda>k. [[[0]]]" "[0..<nat 1]"
      "\<lparr>vae_opt = (), vae_steps = 0, train_loss = Mean\<rparr>"]
  obtain vs2 vl2 where
    vtr: "vae_train_epochs toy_library 1 (\<lambda>k. [[[0]]]) [0..<nat 1]
            (vs, \<lparr>vae_opt = (), vae_steps = 0, train_loss = Mean\<rparr>) = Inr (vs2, vl2)"
    by blast
  have b: "vae_fit toy_library toy_vae (toy_vae_fit_args\<lparr>save_model := Dir ''''\<rparr>)
             = Inl (IndexError ''index out of range'')"
    using vs vtr opt by (simp add: vae_fit_def toy_vae_fit_args_def vae_save_checkpoint_empty)
  from a b show ?thesis ..
qed


section \<open>Generating samples without a generator\<close>


lemma length_random_normal [simp]: "length (random_normal stream pos n d) = n"
  by (simp add: random_normal_def)

lemma generate_samples_built:
  assumes "gen_model self = Some g"
  shows "generate_samples L self n None =
       Inr (Some (map (call L (layers g) (weights self (trainable_variables g)))
                   (random_normal (normal L) (rng self) n (noise_dim self))),
            self\<lparr>rng := rng self + n * noise_dim self\<rparr>)"
  using assms by (simp add: generate_samples_def Let_def weights_def)



lemma toy_dcgan_fields:
  "gen_model toy_dcgan = None" "disc_model toy_dcgan = None"
  "image_size toy_dcgan = Some [28, 28, 1]" "noise_dim toy_dcgan = 1" "rng toy_dcgan = 0"
  "next_var toy_dcgan = 0" "events toy_dcgan = []" "config toy_dcgan = toy_config"
  "directories toy_dcgan = {''out''}" "image_files toy_dcgan = Map.empty"
  "checkpoints toy_dcgan = Map.empty" "stdout toy_dcgan = []"
  by (simp_all add: toy_dcgan_def load_data_def DCGAN_def toy_process_def toy_config_def)




section \<open>When the networks are built\<close>

lemma load_model_ignores_networks:
  "load_model L (self\<lparr>gen_model := a, disc_model := b\<rparr>) = load_model L self"
proof -
  let ?t = "self\<lparr>gen_model := a, disc_model := b\<rparr>"
  have gl: "generator_layers ?t = generator_layers self"
    by (simp add: generator_layers_def)
  have dl: "discriminator_layers (s\<lparr>gen_model := a, disc_model := b\<rparr>) = discriminator_layers s"
    for s :: dcgan
    by (simp add: discriminator_layers_def)
  have sq: "Sequential L ls (s\<lparr>gen_model := a, disc_model := b\<rparr>)
          = (fst (Sequential L ls s), (snd (Sequential L ls s))\<lparr>gen_model := a, disc_model := b\<rparr>)"
    for s :: dcgan and ls
    by (simp add: Sequential_def allocate_def Let_def)
  have g: "generator L ?t = ebind (generator L self)
             (\<lambda>(g, s1). Inr (g, s1\<lparr>gen_model := a, disc_model := b\<rparr>))"
    by (cases "generator_layers self") (simp_all add: generator_def gl sq split_beta)
  have d: "discriminator L (s\<lparr>gen_model := a, disc_model := b\<rparr>) = ebind (discriminator L s)
             (\<lambda>(d, s1). Inr (d, s1\<lparr>gen_model := a, disc_model := b\<rparr>))"
    for s :: dcgan
    by (cases "discriminator_layers s") (simp_all add: discriminator_def dl sq split_beta)
  show ?thesis
  proof (cases "generator L self")
    case (Inl e)
    then show ?thesis by (simp add: load_model_def g)
  next
    case gs: (Inr gs)
    obtain gm s1 where gs1: "gs = (gm, s1)" by (cases gs)
    show ?thesis
    proof (cases "discriminator L s1")
      case (Inl e)
      then show ?thesis using gs gs1 by (simp add: load_model_def g d)
    next
      case (Inr dsr)
      obtain dm s2 where "dsr = (dm, s2)" by (cases dsr)
      with Inr gs gs1 show ?thesis by (simp add: load_model_def g d)
    qed
  qed
qed

lemma fit_ignores_networks:
  "fit L (self\<lparr>gen_model := a, disc_model := b\<rparr>) args = fit L self args"
  by (simp add: fit_def load_model_ignores_networks split: option.splits)

lemma vae_load_model_ignores_model:
  "vae_load_model L (self\<lparr>model := a\<rparr>) = vae_load_model L self"
proof -
  have "vae L (self\<lparr>model := a\<rparr>) cfg
        = ebind (vae L self cfg) (\<lambda>(m, s1). Inr (m, s1\<lparr>model := a\<rparr>))" for cfg
    unfolding vae_def Let_def allocate_def
    by (auto simp: ebind_def split: sum.splits)
  then show ?thesis
    by (cases "vae L self (vae_config self)") (auto simp: vae_load_model_def)
qed

lemma vae_fit_ignores_model:
  "vae_fit L (self\<lparr>model := a\<rparr>) args = vae_fit L self args"
  by (simp add: vae_fit_def vae_load_model_ignores_model split: option.splits)


lemma toy_train_step:
  assumes "gen_model s = Some g" and "disc_model s = Some d"
    and "trainable_variables g = [a]" and "trainable_variables d = [b]" and "a \<noteq> b"
    and "heap s a = [x]" and "heap s b = [y]"
  shows "\<exists>r ev l'. train_step toy_library data (s, l)
           = Inr (s\<lparr>rng := r, heap := (heap s)(b := [y - 1], a := [x - 1]), events := ev\<rparr>, l')"
  using assms
  apply (simp add: train_step_def phase_D_def phase_G_def Let_def weights_def toy_library_def)
  apply (intro exI)
  apply (rule refl)
  done

lemma DCGAN_is_unbuilt:
  "gen_model (DCGAN cfg p) = None \<and> disc_model (DCGAN cfg p) = None"
  by (simp add: DCGAN_def)

lemma VAE_is_unbuilt: "model (VAE cfg p) = None"
  by (simp add: VAE_def)

lemma fit_Inr_load:
  assumes "fit L self args = Inr s'"
  shows "\<exists>s1 g d. load_model L self = Inr s1 \<and> gen_model s1 = Some g \<and> disc_model s1 = Some d
           \<and> gen_model s' = Some g \<and> disc_model s' = Some d \<and> next_var s' = next_var s1"
proof -
  obtain ds where ds: "train_ds args = Some ds"
    using assms by (cases "train_ds args") (auto simp: fit_def)
  obtain s1 where s1: "load_model L self = Inr s1"
    using assms ds by (cases "load_model L self") (auto simp: fit_def)
  let ?go = "make_optimizer L (gen_optimizer args)
               (optimizer_kwargs (gen_optimizer args) (gen_learning_rate args) (beta_1 args))"
  let ?do = "make_optimizer L (disc_optimizer args)
               (optimizer_kwargs (disc_optimizer args) (disc_learning_rate args) (beta_1 args))"
  obtain gopt where go: "?go = Inr gopt"
    using assms ds s1 by (cases ?go) (auto simp: fit_def)
  obtain dopt where dopt: "?do = Inr dopt"
    using assms ds s1 go by (cases ?do) (auto simp: fit_def)
  from load_model_Inr [OF s1] obtain g d where
    g: "gen_model s1 = Some g" and d: "disc_model s1 = Some d" by blast
  let ?l = "\<lparr>gen_opt = gopt, disc_opt = dopt, steps = 0,
             generator_loss = Mean, discriminator_loss = Mean\<rparr>"
  from train_epochs_total [OF g d, of L "verbose args" ds "[0..<nat (epochs args)]" ?l]
  obtain h r ev out l' where
    tr: "train_epochs L (verbose args) ds [0..<nat (epochs args)] (s1, ?l)
           = Inr (s1\<lparr>heap := h, rng := r, events := ev, stdout := out\<rparr>, l')"
    by blast
  let ?s2 = "s1\<lparr>heap := h, rng := r, events := ev, stdout := out\<rparr>"
  have sv: "save_checkpoints (save_model args) ?s2 = Inr s'"
    using assms ds s1 go dopt tr by (simp add: fit_def)
  have "gen_model s' = Some g \<and> disc_model s' = Some d \<and> next_var s' = next_var s1"
    using sv g d
    by (cases "save_model args")
       (auto simp: save_checkpoints_def save_weights_def ebind_eq_Inr split: if_splits)
  with s1 g d show ?thesis by blast
qed

lemma vae_load_model_Inr:
  assumes "vae_load_model L self = Inr s1"
  shows "\<exists>m. model s1 = Some m
           \<and> vae_variables m = [next_var self ..< next_var s1]
           \<and> losses m = [\<lambda>z_mean z_var. kl_loss (concat z_mean) (concat z_var)]"
proof -
  obtain m s0 where v: "vae L self (vae_config self) = Inr (m, s0)"
    using assms by (cases "vae L self (vae_config self)") (auto simp: vae_load_model_def)
  then have s1: "s1 = s0\<lparr>model := Some m\<rparr>"
    using assms by (simp add: vae_load_model_def)
  from v have "vae_variables m = [next_var self ..< next_var s0]
        \<and> losses m = [\<lambda>z_mean z_var. kl_loss (concat z_mean) (concat z_var)]"
    unfolding vae_def Let_def allocate_def
    by (auto simp: ebind_eq_Inr)
  with s1 show ?thesis by simp
qed


lemma toy_load_model_any:
  assumes "image_size s = Some [28, 28, 1]" and "config s = toy_config"
  shows "\<exists>s1 g d. load_model toy_library s = Inr s1
     \<and> gen_model s1 = Some g \<and> disc_model s1 = Some d
     \<and> trainable_variables g = [next_var s] \<and> trainable_variables d = [Suc (next_var s)]
     \<and> heap s1 (next_var s) = [0] \<and> heap s1 (Suc (next_var s)) = [0]
     \<and> (\<forall>v<next_var s. heap s1 v = heap s v)
     \<and> next_var s1 = next_var s + 2 \<and> image_size s1 = image_size s \<and> config s1 = config s"
proof -
  have c: "gen_channels (config s) \<noteq> []" "disc_channels (config s) \<noteq> []"
    "gen_path (config s) = None" "disc_path (config s) = None"
    by (simp_all add: assms toy_config_def)
  from load_model_ok [OF assms(1) _ c, of toy_library]
  obtain s1 where s1: "load_model toy_library s = Inr s1" by auto
  from load_model_Inr [OF s1] obtain g d where
    g: "gen_model s1 = Some g" and d: "disc_model s1 = Some d"
    and vg: "trainable_variables g
               = [next_var s ..< next_var s + length (initializer toy_library (layers g))]"
    and vd: "trainable_variables d
               = [next_var s + length (initializer toy_library (layers g)) ..< next_var s1]"
    and n: "next_var s1 = next_var s + length (initializer toy_library (layers g))
                        + length (initializer toy_library (layers d))"
    and f: "config s1 = config s" "image_size s1 = image_size s"
    by blast
  have vg': "trainable_variables g = [next_var s]"
    using vg by (simp add: toy_library_def)
  have n': "next_var s1 = next_var s + 2"
    using n by (simp add: toy_library_def)
  have vd': "trainable_variables d = [Suc (next_var s)]"
    using vd n' by (simp add: toy_library_def upt_rec)
  from load_model_fresh_weights [OF s1 c(3,4) g d]
  have w: "weights s1 (trainable_variables g) = initializer toy_library (layers g)"
    "weights s1 (trainable_variables d) = initializer toy_library (layers d)"
    "\<forall>v<next_var s. heap s1 v = heap s v"
    by blast+
  have "heap s1 (next_var s) = [0]" "heap s1 (Suc (next_var s)) = [0]"
    using w(1,2) by (simp_all add: vg' vd' weights_def toy_library_def)
  with s1 g d vg' vd' w(3) n' f show ?thesis by blast
qed

lemma toy_fit_once:
  assumes "image_size s = Some [28, 28, 1]" and "config s = toy_config"
  shows "\<exists>s' g d. fit toy_library s (toy_fit_args\<lparr>train_ds := Some (\<lambda>k. [[[0]]]), epochs := 1\<rparr>) = Inr s'
     \<and> gen_model s' = Some g \<and> disc_model s' = Some d
     \<and> trainable_variables g = [next_var s] \<and> trainable_variables d = [Suc (next_var s)]
     \<and> heap s' (next_var s) = [- 1] \<and> heap s' (Suc (next_var s)) = [- 1]
     \<and> (\<forall>v<next_var s. heap s' v = heap s v)
     \<and> next_var s' = next_var s + 2 \<and> image_size s' = image_size s \<and> config s' = config s"
proof -
  from toy_load_model_any [OF assms] obtain s1 g d where
    s1: "load_model toy_library s = Inr s1"
    and g: "gen_model s1 = Some g" and d: "disc_model s1 = Some d"
    and vg: "trainable_variables g = [next_var s]"
    and vd: "trainable_variables d = [Suc (next_var s)]"
    and hg: "heap s1 (next_var s) = [0]" and hd: "heap s1 (Suc (next_var s)) = [0]"
    and old: "\<forall>v<next_var s. heap s1 v = heap s v"
    and f: "next_var s1 = next_var s + 2" "image_size s1 = image_size s" "config s1 = config s"
    by blast
  let ?l = "\<lparr>gen_opt = (), disc_opt = (), steps = 0,
             generator_loss = Mean, discriminator_loss = Mean\<rparr>"
  let ?lreset = "?l\<lparr>generator_loss := reset_states (generator_loss ?l),
                 discriminator_loss := reset_states (discriminator_loss ?l)\<rparr>"
  from toy_train_step [OF g d vg vd _ hg hd, of "[[0]]" ?lreset]
  obtain r ev l' where
    st: "train_step toy_library [[0]] (s1, ?lreset)
           = Inr (s1\<lparr>rng := r, heap := (heap s1)(Suc (next_var s) := [0 - 1], next_var s := [0 - 1]),
                     events := ev\<rparr>, l')"
    by auto
  let ?s2 = "s1\<lparr>rng := r, heap := (heap s1)(Suc (next_var s) := [0 - 1], next_var s := [0 - 1]),
                 events := ev\<rparr>"
  let ?s3 = "?s2\<lparr>stdout := stdout ?s2 @ [EpochLosses 1 (result (generator_loss l'))
                                        (result (discriminator_loss l'))]\<rparr>"
  have ep: "train_epochs toy_library 1 (\<lambda>k. [[[0]]]) [0] (s1, ?l) = Inr (?s3, l')"
    using st by (simp add: train_epoch_def reset_states_def Mean_def)
  have o: "make_optimizer toy_library ''Adam'' kw = Inr ()" for kw
    by (simp add: make_optimizer_def toy_library_def)
  have a: "train_ds (toy_fit_args\<lparr>train_ds := Some (\<lambda>k. [[[0]]]), epochs := 1\<rparr>) = Some (\<lambda>k. [[[0]]])"
    "[0..<nat (epochs (toy_fit_args\<lparr>train_ds := Some (\<lambda>k. [[[0]]]), epochs := 1\<rparr>))] = [0]"
    "verbose (toy_fit_args\<lparr>train_ds := Some (\<lambda>k. [[[0]]]), epochs := 1\<rparr>) = 1"
    "save_model (toy_fit_args\<lparr>train_ds := Some (\<lambda>k. [[[0]]]), epochs := 1\<rparr>) = NoDir"
    "gen_optimizer (toy_fit_args\<lparr>train_ds := Some (\<lambda>k. [[[0]]]), epochs := 1\<rparr>) = ''Adam''"
    "disc_optimizer (toy_fit_args\<lparr>train_ds := Some (\<lambda>k. [[[0]]]), epochs := 1\<rparr>) = ''Adam''"
    by (simp_all add: toy_fit_args_def)
  have "fit toy_library s (toy_fit_args\<lparr>train_ds := Some (\<lambda>k. [[[0]]]), epochs := 1\<rparr>) = Inr ?s3"
    unfolding fit_def a
    apply (simp add: s1 o del: train_epochs.simps)
    apply (subst ep)
    apply (simp add: save_checkpoints_def)
    done
  moreover have "gen_model ?s3 = Some g" "disc_model ?s3 = Some d"
    "heap ?s3 (next_var s) = [- 1]" "heap ?s3 (Suc (next_var s)) = [- 1]"
    "\<forall>v<next_var s. heap ?s3 v = heap s v"
    "next_var ?s3 = next_var s + 2" "image_size ?s3 = image_size s" "config ?s3 = config s"
    using g d old f by simp_all
  ultimately show ?thesis
    using vg vd by blast
qed

lemma vae_train_epoch_keeps:
  assumes "model self = Some m"
  shows "\<exists>s' l'. vae_train_epoch L verb ds epoch (self, l) = Inr (s', l')
         \<and> model s' = Some m \<and> next_var s' = next_var self"
proof -
  let ?lmean = "l\<lparr>train_loss := reset_states (train_loss l)\<rparr>"
  from vae_train_batches_result [OF assms, of L "ds epoch" ?lmean]
  obtain h r l' where
    tb: "vae_train_batches L (ds epoch) (self, ?lmean) =
           Inr (self\<lparr>heap := h, rng := r,
                      events := events self @ concat (replicate (length (ds epoch))
                        [TapeGradient (vae_variables m), ApplyGradients VaeOptimizer (vae_variables m)])\<rparr>, l')"
    by blast
  show ?thesis
    using tb assms by (simp add: vae_train_epoch_def)
qed

lemma vae_train_epochs_keeps:
  assumes "model self = Some m"
  shows "\<exists>s' l'. vae_train_epochs L verb ds es (self, l) = Inr (s', l')
         \<and> model s' = Some m \<and> next_var s' = next_var self"
  using assms
proof (induction es arbitrary: self l)
  case Nil
  then show ?case by simp
next
  case (Cons e es)
  from vae_train_epoch_keeps [OF Cons.prems, of L verb ds e l]
  obtain s1 l1 where ep: "vae_train_epoch L verb ds e (self, l) = Inr (s1, l1)"
    and m1: "model s1 = Some m" and n1: "next_var s1 = next_var self" by blast
  from Cons.IH [OF m1, of l1] ep n1 show ?case by simp
qed

lemma vae_fit_Inr_load:
  assumes "vae_fit L self args = Inr s'"
  shows "\<exists>m. model s' = Some m \<and> vae_variables m = [next_var self ..< next_var s']"
proof -
  obtain ds where ds: "train_ds args = Some ds"
    using assms by (cases "train_ds args") (auto simp: vae_fit_def)
  obtain s1 where s1: "vae_load_model L self = Inr s1"
    using assms ds by (cases "vae_load_model L self") (auto simp: vae_fit_def)
  let ?mo = "make_optimizer L (optimizer args) [(''learning_rate'', learning_rate args)]"
  obtain opt where opt: "?mo = Inr opt"
    using assms ds s1 by (cases ?mo) (auto simp: vae_fit_def)
  from vae_load_model_Inr [OF s1] obtain m where
    m: "model s1 = Some m" and v: "vae_variables m = [next_var self ..< next_var s1]" by blast
  let ?l = "\<lparr>vae_opt = opt, vae_steps = 0, train_loss = Mean\<rparr>"
  from vae_train_epochs_keeps [OF m, of L "verbose args" ds "[0..<nat (epochs args)]" ?l]
  obtain s2 l' where
    tr: "vae_train_epochs L (verbose args) ds [0..<nat (epochs args)] (s1, ?l) = Inr (s2, l')"
    and m2: "model s2 = Some m" and n2: "next_var s2 = next_var s1"
    by blast
  have sv: "vae_save_checkpoint (save_model args) s2 = Inr s'"
    using assms ds s1 opt tr by (simp add: vae_fit_def)
  have "model s' = Some m \<and> next_var s' = next_var s2"
    using sv m2
    by (cases "save_model args")
       (auto simp: vae_save_checkpoint_def save_weights_def ebind_eq_Inr split: if_splits)
  with v n2 show ?thesis by simp
qed

lemma fit_Inr_variables:
  assumes "fit L self args = Inr s'"
  shows "\<exists>g d. gen_model s' = Some g \<and> disc_model s' = Some d
           \<and> trainable_variables g @ trainable_variables d = [next_var self ..< next_var s']"
proof -
  from fit_Inr_load [OF assms] obtain s1 g0 d0 where
    s1: "load_model L self = Inr s1" and g0: "gen_model s1 = Some g0" "disc_model s1 = Some d0"
    and s': "gen_model s' = Some g0" "disc_model s' = Some d0" "next_var s' = next_var s1"
    by blast
  from load_model_Inr [OF s1] g0 have
    vg: "trainable_variables g0
           = [next_var self ..< next_var self + length (initializer L (layers g0))]"
    and vd: "trainable_variables d0
           = [next_var self + length (initializer L (layers g0)) ..< next_var s1]"
    and n: "next_var s1 = next_var self + length (initializer L (layers g0))
                        + length (initializer L (layers d0))"
    by auto
  have "trainable_variables g0 @ trainable_variables d0 = [next_var self ..< next_var s1]"
    unfolding vg vd n
    using upt_add_eq_append [of "next_var self" "next_var self + length (initializer L (layers g0))"
        "length (initializer L (layers d0))"]
    by simp
  with s' show ?thesis by simp
qed

lemma generate_samples_keeps_networks:
  assumes "gen_model self = Some g" and "generate_samples L self n dir = Inr (r, s')"
  shows "gen_model s' = Some g \<and> disc_model s' = disc_model self \<and> heap s' = heap self
       \<and> next_var s' = next_var self"
  using assms
  by (cases dir) (auto simp: generate_samples_def Let_def split: if_splits)


lemma toy_vae_fit_returns:
  "\<exists>s. vae_fit toy_library toy_vae toy_vae_fit_args = Inr s"
proof -
  from toy_vae_load_model obtain vs m where
    vs: "vae_load_model toy_library toy_vae = Inr vs" and m: "model vs = Some m"
    by blast
  let ?l = "\<lparr>vae_opt = (), vae_steps = 0, train_loss = Mean\<rparr>"
  from vae_train_epochs_keeps [OF m, of toy_library 1 "\<lambda>k. [[[0]]]" "[0]" ?l]
  obtain s2 l' where
    tr: "vae_train_epochs toy_library 1 (\<lambda>k. [[[0]]]) [0] (vs, ?l) = Inr (s2, l')"
    by blast
  have o: "make_optimizer toy_library ''Adam'' kw = Inr ()" for kw
    by (simp add: make_optimizer_def toy_library_def)
  have a: "train_ds toy_vae_fit_args = Some (\<lambda>k. [[[0]]])" "epochs toy_vae_fit_args = 1"
    "verbose toy_vae_fit_args = 1" "save_model toy_vae_fit_args = NoDir"
    "optimizer toy_vae_fit_args = ''Adam''"
    by (simp_all add: toy_vae_fit_args_def)
  have "vae_fit toy_library toy_vae toy_vae_fit_args = Inr s2"
    unfolding vae_fit_def a
    apply (simp add: vs o del: vae_train_epochs.simps)
    apply (subst tr)
    apply (simp add: vae_save_checkpoint_def)
    done
  then show ?thesis ..
qed

text \<open>
  Claim C5. The networks are None after construction, and every \<^verbatim>\<open>fit\<close> builds them: line
  369 of dcgan.py and line 280 of vae.py call \<^verbatim>\<open>self.__load_model()\<close> without a test, so
  what \<^verbatim>\<open>fit\<close> does is the same whatever networks the instance holds, and the networks it
  leaves are made of the variables created during this very call. The networks persist
  between calls of \<^verbatim>\<open>fit\<close>: \<^verbatim>\<open>generate_samples\<close> on an instance with a generator keeps both
  networks and the values of all variables. So a second \<^verbatim>\<open>fit\<close> does not continue with the
  networks of the first; it trains new ones.
\<close>

theorem fit_builds_networks_anew:
  "gen_model (DCGAN cfg p) = None \<and> disc_model (DCGAN cfg p) = None \<and> model (VAE vcfg q) = None
   \<and> fit L (self\<lparr>gen_model := a, disc_model := b\<rparr>) args = fit L self args
   \<and> vae_fit L (vself\<lparr>model := c\<rparr>) vargs = vae_fit L vself vargs
   \<and> (\<forall>s'. fit L self args = Inr s' \<longrightarrow>
         (\<exists>g d. gen_model s' = Some g \<and> disc_model s' = Some d
            \<and> trainable_variables g @ trainable_variables d = [next_var self ..< next_var s']))
   \<and> (\<forall>s'. vae_fit L vself vargs = Inr s' \<longrightarrow>
         (\<exists>m. model s' = Some m \<and> vae_variables m = [next_var vself ..< next_var s']))
   \<and> (\<forall>g r s'. gen_model self = Some g \<longrightarrow> generate_samples L self n dir = Inr (r, s') \<longrightarrow>
         gen_model s' = Some g \<and> disc_model s' = disc_model self \<and> heap s' = heap self)"
proof -
  have A: "gen_model (DCGAN cfg p) = None \<and> disc_model (DCGAN cfg p) = None"
    by (rule DCGAN_is_unbuilt)
  have B: "model (VAE vcfg q) = None"
    by (rule VAE_is_unbuilt)
  have C: "fit L (self\<lparr>gen_model := a, disc_model := b\<rparr>) args = fit L self args"
    by (rule fit_ignores_networks)
  have D: "vae_fit L (vself\<lparr>model := c\<rparr>) vargs = vae_fit L vself vargs"
    by (rule vae_fit_ignores_model)
  have E: "\<exists>g d. gen_model s' = Some g \<and> disc_model s' = Some d
            \<and> trainable_variables g @ trainable_variables d = [next_var self ..< next_var s']"
    if "fit L self args = Inr s'" for s'
    using that by (rule fit_Inr_variables)
  have F: "\<exists>m. model s' = Some m \<and> vae_variables m = [next_var vself ..< next_var s']"
    if "vae_fit L vself vargs = Inr s'" for s'
    using that by (rule vae_fit_Inr_load)
  have G: "gen_model s' = Some g \<and> disc_model s' = disc_model self \<and> heap s' = heap self"
    if "gen_model self = Some g" and "generate_samples L self n dir = Inr (r, s')" for g r s'
    using generate_samples_keeps_networks [OF that] by simp
  from A B C D E F G show ?thesis by blast
qed

text \<open>
  Two calls of \<^verbatim>\<open>fit\<close> on the same instance, each with one epoch over one batch. After the
  first call the generator is made of variable 0, whose value the training step has
  changed from 0 to -1. After the second call the instance holds a generator made of
  variable 2, one step away from its initial value; variable 0 is as the first call left
  it and belongs to no network of the instance.
\<close>

theorem second_fit_replaces_trained_networks:
  "\<exists>s1 s2 g1 g2 d2.
     fit toy_library toy_dcgan (toy_fit_args\<lparr>train_ds := Some (\<lambda>k. [[[0]]]), epochs := 1\<rparr>) = Inr s1
   \<and> gen_model s1 = Some g1 \<and> trainable_variables g1 = [0] \<and> weights s1 [0] = [[- 1]]
   \<and> fit toy_library s1 (toy_fit_args\<lparr>train_ds := Some (\<lambda>k. [[[0]]]), epochs := 1\<rparr>) = Inr s2
   \<and> gen_model s2 = Some g2 \<and> disc_model s2 = Some d2
   \<and> trainable_variables g2 = [2] \<and> trainable_variables d2 = [3]
   \<and> gen_model s2 \<noteq> gen_model s1
   \<and> weights s2 [0] = [[- 1]] \<and> weights s2 [2] = [[- 1]]"
proof -
  have i: "image_size toy_dcgan = Some [28, 28, 1]" "config toy_dcgan = toy_config"
    "next_var toy_dcgan = 0"
    by (simp_all add: toy_dcgan_fields)
  from toy_fit_once [OF i(1,2)] obtain s1 g1 d1 where
    f1: "fit toy_library toy_dcgan (toy_fit_args\<lparr>train_ds := Some (\<lambda>k. [[[0]]]), epochs := 1\<rparr>) = Inr s1"
    and g1: "gen_model s1 = Some g1" "trainable_variables g1 = [next_var toy_dcgan]"
    and h1: "heap s1 (next_var toy_dcgan) = [- 1]"
    and n1: "next_var s1 = next_var toy_dcgan + 2"
    and c1: "image_size s1 = image_size toy_dcgan" "config s1 = config toy_dcgan"
    by blast
  have j: "image_size s1 = Some [28, 28, 1]" "config s1 = toy_config"
    using c1 i by simp_all
  from toy_fit_once [OF j] obtain s2 g2 d2 where
    f2: "fit toy_library s1 (toy_fit_args\<lparr>train_ds := Some (\<lambda>k. [[[0]]]), epochs := 1\<rparr>) = Inr s2"
    and g2: "gen_model s2 = Some g2" "disc_model s2 = Some d2"
      "trainable_variables g2 = [next_var s1]" "trainable_variables d2 = [Suc (next_var s1)]"
    and h2: "heap s2 (next_var s1) = [- 1]" "\<forall>v<next_var s1. heap s2 v = heap s1 v"
    by blast
  have n: "next_var s1 = 2" using n1 i by simp
  have v0: "trainable_variables g1 = [0]" using g1 i by simp
  have w1: "weights s1 [0] = [[- 1]]" using h1 i by (simp add: weights_def)
  have v2: "trainable_variables g2 = [2]" "trainable_variables d2 = [3]"
    using g2 n by simp_all
  have ne: "gen_model s2 \<noteq> gen_model s1"
    using g1(1) g2(1) v0 v2 by auto
  have "heap s2 0 = heap s1 0" using h2(2) n by simp
  then have w0: "weights s2 [0] = [[- 1]]" using h1 i by (simp add: weights_def)
  have w2: "weights s2 [2] = [[- 1]]" using h2(1) n by (simp add: weights_def)
  from f1 g1(1) v0 w1 f2 g2(1,2) v2 ne w0 w2 show ?thesis by blast
qed

theorem fit_builds_networks_anew_witness:
  "\<exists>s1 g d r s2 vs m.
     fit toy_library toy_dcgan (toy_fit_args\<lparr>train_ds := Some (\<lambda>k. [[[0]]]), epochs := 1\<rparr>) = Inr s1
   \<and> gen_model s1 = Some g \<and> disc_model s1 = Some d
   \<and> trainable_variables g @ trainable_variables d = [next_var toy_dcgan ..< next_var s1]
   \<and> generate_samples toy_library s1 2 None = Inr (r, s2)
   \<and> gen_model s2 = Some g \<and> disc_model s2 = disc_model s1 \<and> heap s2 = heap s1
   \<and> vae_fit toy_library toy_vae toy_vae_fit_args = Inr vs
   \<and> model vs = Some m \<and> vae_variables m = [next_var toy_vae ..< next_var vs]"
proof -
  let ?args = "toy_fit_args\<lparr>train_ds := Some (\<lambda>k. [[[0]]]), epochs := 1\<rparr>"
  have i: "image_size toy_dcgan = Some [28, 28, 1]" "config toy_dcgan = toy_config"
    by (simp_all add: toy_dcgan_fields)
  from toy_fit_once [OF i] obtain s1 where f1: "fit toy_library toy_dcgan ?args = Inr s1"
    by blast
  from toy_vae_fit_returns obtain vs where
    vf: "vae_fit toy_library toy_vae toy_vae_fit_args = Inr vs" ..
  note T = fit_builds_networks_anew [where L = toy_library and self = toy_dcgan and args = ?args
      and vself = toy_vae and vargs = toy_vae_fit_args]
  from T f1 obtain g d where
    gd: "gen_model s1 = Some g" "disc_model s1 = Some d"
      "trainable_variables g @ trainable_variables d = [next_var toy_dcgan ..< next_var s1]"
    by blast
  from T vf obtain m where
    m: "model vs = Some m" "vae_variables m = [next_var toy_vae ..< next_var vs]"
    by blast
  from generate_samples_built [OF gd(1), of toy_library 2]
  obtain r s2 where gs: "generate_samples toy_library s1 2 None = Inr (r, s2)" by blast
  note U = fit_builds_networks_anew [where L = toy_library and self = s1 and n = 2 and dir = None]
  from U gd(1) gs have
    k: "gen_model s2 = Some g" "disc_model s2 = disc_model s1" "heap s2 = heap s1"
    by blast+
  from f1 gd gs k vf m show ?thesis by blast
qed

end
